theory Spec2Isabelle
  imports Complex_Main "HOL-Library.Multiset" "HOL-Library.Char_ord" "HOL-Library.List_Lexorder"
begin

section \<open>Lost and found server: data model\<close>

text \<open>
  The server (\<^verbatim>\<open>src/server.py\<close>) is a set of request handlers over an SQLite database.
  Each handler opens its own connection, runs a fixed sequence of SQL statements and sends
  one JSON response. The embedding follows that shape: a handler is a function from the
  persistent database (and what the outside world supplies: clock, SQLite built-ins,
  statement failures) to the new persistent database and the response.
\<close>

subsection \<open>Values\<close>

text \<open>
  Python values as \<^verbatim>\<open>json.loads\<close> produces them and \<^verbatim>\<open>json.dumps\<close> consumes them.
  A dict is an association list with distinct keys, read with \<open>map_of\<close>. A float is
  kept as the rational number it denotes.
\<close>

datatype json =
    JNull
  | JBool bool
  | JInt int
  | JReal rat
  | JStr string
  | JArr "json list"
  | JObj "(string \<times> json) list"

text \<open>What an SQLite column holds (no BLOB is ever bound by the server).\<close>

datatype sqlval = SNull | SInt int | SReal rat | SText string

text \<open>\<^verbatim>\<open>dict(row)\<close> followed by \<^verbatim>\<open>json.dumps\<close>: a column value as JSON.\<close>

fun to_json :: "sqlval \<Rightarrow> json" where
  "to_json SNull = JNull"
| "to_json (SInt i) = JInt i"
| "to_json (SReal r) = JReal r"
| "to_json (SText s) = JStr s"

subsection \<open>Tables\<close>

text \<open>
  Modelled from the spec: the table declarations of \<^verbatim>\<open>schema.sql\<close>, which is not among
  the sources. The columns are the ones the statements of \<^verbatim>\<open>server.py\<close> name; their
  meaning is the one of the spec's data model (an integer identifier per row, the claim's
  required reference to an item, its optional reference to an employee). The six
  descriptive columns of an item hold whatever value the registration request bound;
  column affinity, constraints and the trigger \<^verbatim>\<open>trg_Item_BeforeUpdate\<close> that a comment of
  \<^verbatim>\<open>approve_claim\<close> mentions are part of the missing schema and appear here only as
  the possible failure of a statement (\<open>fault\<close> below).
\<close>

record item =
  item_id :: int
  name :: sqlval
  category :: sqlval
  description :: sqlval
  color :: sqlval
  dateFound :: sqlval
  foundAt :: sqlval
  isClaimed :: int
  dateUpdated :: string

record claim =
  claim_id :: int
  itemID :: int
  ownerFirstName :: string
  ownerLastName :: string
  verificationCode :: string
  claimDate :: string
  verificationStatus :: string
  handledBy :: "int option"

record item_status =
  status_itemID :: int
  status :: string
  statusDate :: string

record employee =
  employee_id :: int
  firstName :: string
  lastName :: string
  position :: string
  itemsManaged :: int

record db =
  Items :: "item list"
  Claims :: "claim list"
  ItemStatus :: "item_status list"
  Employees :: "employee list"

subsection \<open>Environment of a request\<close>

text \<open>The SQL statements of the handlers, in the order of the source.\<close>

datatype stmt =
    GetItems_Select
  | AddItem_Insert
  | AddItem_Commit
  | AddItem_Select
  | GetClaims_Select
  | Approve_Begin
  | Approve_Select
  | Approve_UpdateClaim
  | Approve_UpdateItem
  | Approve_InsertStatus
  | Approve_Commit
  | Metrics_SelectUnclaimed
  | Metrics_SelectClaimed
  | Employees_Select

text \<open>
  What SQLite and the clock supply while one request is handled:
  \<^item> \<open>datetime_now s\<close>: the text \<^verbatim>\<open>datetime('now')\<close> yields in statement \<open>s\<close>
    (SQLite fixes "now" within one statement, not across statements);
  \<^item> \<open>julianday_now s\<close>: the number \<^verbatim>\<open>julianday('now')\<close> yields in statement \<open>s\<close>;
  \<^item> \<open>julianday v\<close>: SQLite's \<^verbatim>\<open>julianday(v)\<close>, \<open>None\<close> (SQL NULL) when \<open>v\<close>
    is not a date;
  \<^item> \<open>avg_double xs\<close>: the double that SQLite's \<^verbatim>\<open>AVG\<close> computes from the doubles
    \<open>xs\<close> (their floating-point sum divided by their number); it is near the exact
    average, not equal to it in general;
  \<^item> \<open>text_as_int t\<close>: the integer that the text \<open>t\<close> equals when SQLite compares it
    with an integer key column (numeric affinity is applied to the text), \<open>None\<close> when
    it equals no integer;
  \<^item> \<open>fault s\<close>: statement \<open>s\<close> raises \<^verbatim>\<open>sqlite3.Error\<close> (constraint, trigger, lock,
    I/O), leaving the database as it was before the statement.
\<close>

record env =
  datetime_now :: "stmt \<Rightarrow> string"
  julianday_now :: "stmt \<Rightarrow> rat"
  julianday :: "sqlval \<Rightarrow> rat option"
  avg_double :: "rat list \<Rightarrow> rat"
  text_as_int :: "string \<Rightarrow> int option"
  fault :: "stmt \<Rightarrow> bool"

text \<open>Python exceptions that reach a handler's \<^verbatim>\<open>except Exception\<close>.\<close>

datatype exn = TypeError | KeyError | OverflowError | BindingError | DatabaseError stmt

text \<open>
  \<open>Response status body\<close> is \<^verbatim>\<open>_send_json(body, status)\<close>;
  \<open>Failed e\<close> is \<^verbatim>\<open>_send_json({'error': str(e)}, 500)\<close>.
\<close>

datatype response = Response nat json | Failed exn

subsection \<open>Connections and transactions\<close>

text \<open>
  \<^verbatim>\<open>get_db()\<close> opens a connection on the database file. Statements read and write the
  connection's working copy; \<^verbatim>\<open>commit\<close> makes it persistent, \<^verbatim>\<open>rollback\<close> discards
  it. What persists when the handler is done is \<open>committed\<close>: a connection dropped with
  an open transaction loses its uncommitted writes.
\<close>

record conn =
  committed :: db
  working :: db

definition get_db :: "db \<Rightarrow> conn" where
  "get_db d = \<lparr>committed = d, working = d\<rparr>"

definition rollback :: "conn \<Rightarrow> conn" where
  "rollback c = c\<lparr>working := committed c\<rparr>"

definition execute :: "env \<Rightarrow> stmt \<Rightarrow> (db \<Rightarrow> db) \<Rightarrow> conn \<Rightarrow> exn + conn" where
  "execute e s f c =
     (if fault e s then Inl (DatabaseError s) else Inr (c\<lparr>working := f (working c)\<rparr>))"

definition query :: "env \<Rightarrow> stmt \<Rightarrow> (db \<Rightarrow> 'a) \<Rightarrow> conn \<Rightarrow> exn + 'a" where
  "query e s q c = (if fault e s then Inl (DatabaseError s) else Inr (q (working c)))"

definition commit :: "env \<Rightarrow> stmt \<Rightarrow> conn \<Rightarrow> exn + conn" where
  "commit e s c =
     (if fault e s then Inl (DatabaseError s) else Inr (c\<lparr>committed := working c\<rparr>))"

section \<open>Claim ledger: \<^verbatim>\<open>approve_claim\<close>\<close>

text \<open>\<^verbatim>\<open>WHERE id = ?\<close> with the path segment (a Python \<^verbatim>\<open>str\<close>) bound to the parameter.\<close>

definition id_is :: "env \<Rightarrow> string \<Rightarrow> int \<Rightarrow> bool" where
  "id_is e t n = (text_as_int e t = Some n)"

text \<open>
  \<^verbatim>\<open>SELECT itemID FROM Claims WHERE id = ? AND verificationStatus = 'Pending'\<close>,
  then \<^verbatim>\<open>fetchone()\<close>: the first matching row, if any.
\<close>

definition select_pending :: "env \<Rightarrow> string \<Rightarrow> db \<Rightarrow> int option" where
  "select_pending e cid d =
     map_option itemID
       (find (\<lambda>c. id_is e cid (claim_id c) \<and> verificationStatus c = ''Pending'') (Claims d))"

text \<open>\<^verbatim>\<open>UPDATE Claims SET verificationStatus = 'Approved' WHERE id = ?\<close>\<close>

definition update_claim :: "env \<Rightarrow> string \<Rightarrow> db \<Rightarrow> db" where
  "update_claim e cid d =
     d\<lparr>Claims :=
         map (\<lambda>c. if id_is e cid (claim_id c) then c\<lparr>verificationStatus := ''Approved''\<rparr> else c)
           (Claims d)\<rparr>"

text \<open>\<^verbatim>\<open>UPDATE Items SET isClaimed = 1, dateUpdated = datetime('now') WHERE id = ?\<close>\<close>

definition update_item :: "env \<Rightarrow> int \<Rightarrow> db \<Rightarrow> db" where
  "update_item e i d =
     d\<lparr>Items :=
         map (\<lambda>it. if item_id it = i
                    then it\<lparr>isClaimed := 1, dateUpdated := datetime_now e Approve_UpdateItem\<rparr>
                    else it)
           (Items d)\<rparr>"

text \<open>
  \<^verbatim>\<open>INSERT INTO ItemStatus (itemID, status, statusDate) VALUES (?, 'Claimed', datetime('now'))\<close>
\<close>

definition insert_status :: "env \<Rightarrow> int \<Rightarrow> db \<Rightarrow> db" where
  "insert_status e i d =
     d\<lparr>ItemStatus :=
         ItemStatus d @
           [\<lparr>status_itemID = i, status = ''Claimed'',
             statusDate = datetime_now e Approve_InsertStatus\<rparr>]\<rparr>"

text \<open>
  The body of the \<^verbatim>\<open>try\<close> block: the connection as the block leaves it, and either the
  exception raised or the response sent.
\<close>

definition approve_try :: "env \<Rightarrow> string \<Rightarrow> conn \<Rightarrow> conn \<times> (exn + response)" where
  "approve_try e cid c0 =
     (case execute e Approve_Begin (\<lambda>d. d) c0 of
        Inl x \<Rightarrow> (c0, Inl x)
      | Inr c1 \<Rightarrow>
     (case query e Approve_Select (select_pending e cid) c1 of
        Inl x \<Rightarrow> (c1, Inl x)
      | Inr None \<Rightarrow>
          (rollback c1,
           Inr (Response 404 (JObj [(''error'', JStr ''Claim not found or already processed'')])))
      | Inr (Some i) \<Rightarrow>
     (case execute e Approve_UpdateClaim (update_claim e cid) c1 of
        Inl x \<Rightarrow> (c1, Inl x)
      | Inr c2 \<Rightarrow>
     (case execute e Approve_UpdateItem (update_item e i) c2 of
        Inl x \<Rightarrow> (c2, Inl x)
      | Inr c3 \<Rightarrow>
     (case execute e Approve_InsertStatus (insert_status e i) c3 of
        Inl x \<Rightarrow> (c3, Inl x)
      | Inr c4 \<Rightarrow>
     (case commit e Approve_Commit c4 of
        Inl x \<Rightarrow> (c4, Inl x)
      | Inr c5 \<Rightarrow>
          (c5,
           Inr (Response 200
                  (JObj [(''success'', JBool True), (''claimID'', JStr cid),
                         (''itemID'', JInt i)])))))))))"

text \<open>
  \<^verbatim>\<open>approve_claim\<close>: the \<^verbatim>\<open>try\<close> block, and on an exception \<^verbatim>\<open>conn.rollback()\<close>
  followed by the 500 response.
\<close>

definition approve_claim :: "env \<Rightarrow> string \<Rightarrow> db \<Rightarrow> db \<times> response" where
  "approve_claim e cid d =
     (case approve_try e cid (get_db d) of
        (c, Inl x) \<Rightarrow> (committed (rollback c), Failed x)
      | (c, Inr r) \<Rightarrow> (committed c, r))"

text \<open>The statements of \<^verbatim>\<open>approve_claim\<close>, in program order.\<close>

definition approve_stmts :: "stmt list" where
  "approve_stmts =
     [Approve_Begin, Approve_Select, Approve_UpdateClaim, Approve_UpdateItem,
      Approve_InsertStatus, Approve_Commit]"

section \<open>Item registry: \<^verbatim>\<open>add_item\<close> and \<^verbatim>\<open>get_items\<close>\<close>

subsection \<open>Python on the request body\<close>

definition required :: "string list" where
  "required =
     [''itemName'', ''itemCategory'', ''color'', ''itemDescription'', ''dateFound'', ''FoundAt'']"

fun starts_with :: "string \<Rightarrow> string \<Rightarrow> bool" where
  "starts_with [] s = True"
| "starts_with (a # k) [] = False"
| "starts_with (a # k) (b # s) = (a = b \<and> starts_with k s)"

fun contains :: "string \<Rightarrow> string \<Rightarrow> bool" where
  "contains k [] = (k = [])"
| "contains k (b # s) = (starts_with k (b # s) \<or> contains k s)"

text \<open>
  \<^verbatim>\<open>k in data\<close>: a key of a dict, an element of a list, a substring of a string;
  any other JSON value is not iterable.
\<close>

fun py_in :: "string \<Rightarrow> json \<Rightarrow> exn + bool" where
  "py_in k (JObj kvs) = Inr (k \<in> set (map fst kvs))"
| "py_in k (JArr xs) = Inr (JStr k \<in> set xs)"
| "py_in k (JStr s) = Inr (contains k s)"
| "py_in k JNull = Inl TypeError"
| "py_in k (JBool b) = Inl TypeError"
| "py_in k (JInt i) = Inl TypeError"
| "py_in k (JReal r) = Inl TypeError"

text \<open>\<^verbatim>\<open>all(k in data for k in ks)\<close>: stops at the first \<^verbatim>\<open>False\<close> or exception.\<close>

fun has_all :: "string list \<Rightarrow> json \<Rightarrow> exn + bool" where
  "has_all [] data = Inr True"
| "has_all (k # ks) data =
     (case py_in k data of
        Inl x \<Rightarrow> Inl x
      | Inr b \<Rightarrow> if b then has_all ks data else Inr False)"

text \<open>\<^verbatim>\<open>data[k]\<close> with a string \<open>k\<close>.\<close>

fun getitem :: "json \<Rightarrow> string \<Rightarrow> exn + json" where
  "getitem (JObj kvs) k = (case map_of kvs k of None \<Rightarrow> Inl KeyError | Some v \<Rightarrow> Inr v)"
| "getitem (JArr xs) k = Inl TypeError"
| "getitem (JStr s) k = Inl TypeError"
| "getitem JNull k = Inl TypeError"
| "getitem (JBool b) k = Inl TypeError"
| "getitem (JInt i) k = Inl TypeError"
| "getitem (JReal r) k = Inl TypeError"

text \<open>
  Binding a Python value to a \<^verbatim>\<open>?\<close> of a statement: \<^verbatim>\<open>None\<close>, \<^verbatim>\<open>bool\<close>/\<^verbatim>\<open>int\<close>
  (64 bits, signed), \<^verbatim>\<open>float\<close> and \<^verbatim>\<open>str\<close> are supported; a list or a dict is not.
\<close>

fun bind_param :: "json \<Rightarrow> exn + sqlval" where
  "bind_param JNull = Inr SNull"
| "bind_param (JBool b) = Inr (SInt (if b then 1 else 0))"
| "bind_param (JInt i) =
     (if - (2 ^ 63) \<le> i \<and> i < 2 ^ 63 then Inr (SInt i) else Inl OverflowError)"
| "bind_param (JReal r) = Inr (SReal r)"
| "bind_param (JStr s) = Inr (SText s)"
| "bind_param (JArr xs) = Inl BindingError"
| "bind_param (JObj kvs) = Inl BindingError"

fun bind_exn :: "exn + 'a \<Rightarrow> ('a \<Rightarrow> exn + 'b) \<Rightarrow> exn + 'b" where
  "bind_exn (Inl x) f = Inl x"
| "bind_exn (Inr a) f = f a"

text \<open>
  The parameter tuple of the \<^verbatim>\<open>INSERT\<close>: the six subscripts are evaluated first, in
  the order written, then the values are bound in that order.
\<close>

definition item_params ::
  "json \<Rightarrow> exn + (sqlval \<times> sqlval \<times> sqlval \<times> sqlval \<times> sqlval \<times> sqlval)" where
  "item_params data =
     bind_exn (getitem data ''itemName'') (\<lambda>v1.
     bind_exn (getitem data ''itemCategory'') (\<lambda>v2.
     bind_exn (getitem data ''itemDescription'') (\<lambda>v3.
     bind_exn (getitem data ''color'') (\<lambda>v4.
     bind_exn (getitem data ''dateFound'') (\<lambda>v5.
     bind_exn (getitem data ''FoundAt'') (\<lambda>v6.
     bind_exn (bind_param v1) (\<lambda>p1.
     bind_exn (bind_param v2) (\<lambda>p2.
     bind_exn (bind_param v3) (\<lambda>p3.
     bind_exn (bind_param v4) (\<lambda>p4.
     bind_exn (bind_param v5) (\<lambda>p5.
     bind_exn (bind_param v6) (\<lambda>p6.
       Inr (p1, p2, p3, p4, p5, p6)))))))))))))"

subsection \<open>\<^verbatim>\<open>add_item\<close>\<close>

text \<open>
  Modelled from the spec: the identifier SQLite assigns to a new row (the key column is
  declared in the missing schema): one more than the largest identifier in the table,
  1 for an empty table. This is \<^verbatim>\<open>cursor.lastrowid\<close>.
\<close>

definition next_rowid :: "int list \<Rightarrow> int" where
  "next_rowid ids = (if ids = [] then 1 else Max (set ids) + 1)"

text \<open>
  \<^verbatim>\<open>INSERT INTO Items (name, category, description, color, dateFound, foundAt, isClaimed,
  dateUpdated) VALUES (?, ?, ?, ?, ?, ?, 0, datetime('now'))\<close>
\<close>

definition insert_item ::
  "env \<Rightarrow> sqlval \<times> sqlval \<times> sqlval \<times> sqlval \<times> sqlval \<times> sqlval \<Rightarrow> db \<Rightarrow> db" where
  "insert_item e ps d =
     (case ps of (p1, p2, p3, p4, p5, p6) \<Rightarrow>
        d\<lparr>Items :=
            Items d @
              [\<lparr>item_id = next_rowid (map item_id (Items d)),
                name = p1, category = p2, description = p3, color = p4,
                dateFound = p5, foundAt = p6, isClaimed = 0,
                dateUpdated = datetime_now e AddItem_Insert\<rparr>]\<rparr>)"

text \<open>
  \<^verbatim>\<open>SELECT id as itemID, name as itemName, category as itemCategory, description as
  itemDescription, color, dateFound, foundAt as FoundAt FROM Items WHERE id = ?\<close>,
  \<^verbatim>\<open>fetchone()\<close>, \<^verbatim>\<open>dict(...)\<close>.
\<close>

definition created_row :: "item \<Rightarrow> (string \<times> json) list" where
  "created_row it =
     [(''itemID'', JInt (item_id it)),
      (''itemName'', to_json (name it)),
      (''itemCategory'', to_json (category it)),
      (''itemDescription'', to_json (description it)),
      (''color'', to_json (color it)),
      (''dateFound'', to_json (dateFound it)),
      (''FoundAt'', to_json (foundAt it))]"

definition select_created :: "int \<Rightarrow> db \<Rightarrow> (string \<times> json) list option" where
  "select_created i d = map_option created_row (find (\<lambda>it. item_id it = i) (Items d))"

definition add_item_try :: "env \<Rightarrow> json \<Rightarrow> db \<Rightarrow> db \<times> (exn + response)" where
  "add_item_try e data d =
     (case has_all required data of
        Inl x \<Rightarrow> (d, Inl x)
      | Inr False \<Rightarrow> (d, Inr (Response 400 (JObj [(''error'', JStr ''Missing required fields'')])))
      | Inr True \<Rightarrow>
     (let c0 = get_db d in
      case item_params data of
        Inl x \<Rightarrow> (committed c0, Inl x)
      | Inr ps \<Rightarrow>
     (case execute e AddItem_Insert (insert_item e ps) c0 of
        Inl x \<Rightarrow> (committed c0, Inl x)
      | Inr c1 \<Rightarrow>
     (let i = next_rowid (map item_id (Items (working c0))) in
      case commit e AddItem_Commit c1 of
        Inl x \<Rightarrow> (committed c1, Inl x)
      | Inr c2 \<Rightarrow>
     (case query e AddItem_Select (select_created i) c2 of
        Inl x \<Rightarrow> (committed c2, Inl x)
      | Inr None \<Rightarrow> (committed c2, Inl TypeError)
      | Inr (Some row) \<Rightarrow> (committed c2, Inr (Response 201 (JObj row))))))))"

definition add_item :: "env \<Rightarrow> json \<Rightarrow> db \<Rightarrow> db \<times> response" where
  "add_item e data d =
     (case add_item_try e data d of
        (d', Inl x) \<Rightarrow> (d', Failed x)
      | (d', Inr r) \<Rightarrow> (d', r))"

subsection \<open>\<^verbatim>\<open>get_items\<close>\<close>

text \<open>
  SQLite's order on stored values, as \<^verbatim>\<open>ORDER BY\<close> uses it: NULL first, then numbers
  by value, then text byte by byte.
\<close>

fun sql_le :: "sqlval \<Rightarrow> sqlval \<Rightarrow> bool" where
  "sql_le SNull v = True"
| "sql_le (SInt a) SNull = False"
| "sql_le (SInt a) (SInt b) = (a \<le> b)"
| "sql_le (SInt a) (SReal b) = (of_int a \<le> b)"
| "sql_le (SInt a) (SText t) = True"
| "sql_le (SReal a) SNull = False"
| "sql_le (SReal a) (SInt b) = (a \<le> of_int b)"
| "sql_le (SReal a) (SReal b) = (a \<le> b)"
| "sql_le (SReal a) (SText t) = True"
| "sql_le (SText s) (SText t) = (s \<le> t)"
| "sql_le (SText s) SNull = False"
| "sql_le (SText s) (SInt b) = False"
| "sql_le (SText s) (SReal b) = False"

text \<open>
  \<^verbatim>\<open>ORDER BY key DESC\<close> as a stable insertion sort: rows with equal keys stay in table
  order (SQLite itself promises no order among them).
\<close>

fun insert_desc :: "('k \<Rightarrow> 'k \<Rightarrow> bool) \<Rightarrow> ('r \<Rightarrow> 'k) \<Rightarrow> 'r \<Rightarrow> 'r list \<Rightarrow> 'r list" where
  "insert_desc le key x [] = [x]"
| "insert_desc le key x (y # ys) =
     (if le (key y) (key x) then x # y # ys else y # insert_desc le key x ys)"

definition order_by_desc :: "('k \<Rightarrow> 'k \<Rightarrow> bool) \<Rightarrow> ('r \<Rightarrow> 'k) \<Rightarrow> 'r list \<Rightarrow> 'r list" where
  "order_by_desc le key rows = foldr (insert_desc le key) rows []"

text \<open>\<^verbatim>\<open>CAST(x AS INTEGER)\<close> of a real: the fractional part is dropped.\<close>

definition cast_integer :: "rat \<Rightarrow> int" where
  "cast_integer x = (if 0 \<le> x then \<lfloor>x\<rfloor> else \<lceil>x\<rceil>)"

text \<open>
  \<^verbatim>\<open>julianday('now') - julianday(dateFound)\<close>; NULL when the date is. The difference is
  taken exactly, as it is for two doubles of the same magnitude.
\<close>

definition age_days :: "env \<Rightarrow> stmt \<Rightarrow> item \<Rightarrow> rat option" where
  "age_days e s it = map_option (\<lambda>j. julianday_now e s - j) (julianday e (dateFound it))"

definition days_unclaimed :: "env \<Rightarrow> item \<Rightarrow> int option" where
  "days_unclaimed e it = map_option cast_integer (age_days e GetItems_Select it)"

definition listed_row :: "env \<Rightarrow> item \<Rightarrow> (string \<times> json) list" where
  "listed_row e it =
     [(''itemID'', JInt (item_id it)),
      (''itemName'', to_json (name it)),
      (''itemDescription'', to_json (description it)),
      (''itemCategory'', to_json (category it)),
      (''color'', to_json (color it)),
      (''dateFound'', to_json (dateFound it)),
      (''FoundAt'', to_json (foundAt it)),
      (''isClaimed'', JInt (isClaimed it)),
      (''DaysUnclaimed'', case days_unclaimed e it of None \<Rightarrow> JNull | Some n \<Rightarrow> JInt n)]"

text \<open>The rows of \<^verbatim>\<open>... FROM Items WHERE isClaimed = 0 ORDER BY dateFound DESC\<close>.\<close>

definition select_unclaimed :: "db \<Rightarrow> item list" where
  "select_unclaimed d = order_by_desc sql_le dateFound (filter (\<lambda>it. isClaimed it = 0) (Items d))"

definition get_items :: "env \<Rightarrow> db \<Rightarrow> db \<times> response" where
  "get_items e d =
     (let c = get_db d in
      case query e GetItems_Select (\<lambda>w. map (listed_row e) (select_unclaimed w)) c of
        Inl x \<Rightarrow> (committed c, Failed x)
      | Inr rows \<Rightarrow> (committed c, Response 200 (JArr (map JObj rows))))"

section \<open>Claim ledger: \<^verbatim>\<open>get_claims\<close>\<close>

text \<open>\<^verbatim>\<open>LEFT JOIN Employees e ON c.handledBy = e.id\<close>: a claim without employee keeps one row.\<close>

definition left_join_employee :: "claim \<Rightarrow> employee list \<Rightarrow> employee option list" where
  "left_join_employee c es =
     (case filter (\<lambda>m. handledBy c = Some (employee_id m)) es of
        [] \<Rightarrow> [None]
      | ms \<Rightarrow> map Some ms)"

definition claim_row :: "claim \<Rightarrow> item \<Rightarrow> employee option \<Rightarrow> (string \<times> json) list" where
  "claim_row c it m =
     [(''claimID'', JInt (claim_id c)),
      (''claimDate'', JStr (claimDate c)),
      (''verificationCode'', JStr (verificationCode c)),
      (''OwnerFirstName'', JStr (ownerFirstName c)),
      (''OwnerLastName'', JStr (ownerLastName c)),
      (''itemName'', to_json (name it)),
      (''itemCategory'', to_json (category it)),
      (''FoundAtLocation'', to_json (foundAt it)),
      (''ManagingStaff'',
         JStr (case m of None \<Rightarrow> ''Unassigned'' | Some w \<Rightarrow> firstName w @ '' '' @ lastName w))]"

definition select_claims :: "db \<Rightarrow> (string \<times> json) list list" where
  "select_claims d =
     concat (map (\<lambda>c.
       concat (map (\<lambda>it. map (claim_row c it) (left_join_employee c (Employees d)))
         (filter (\<lambda>it. item_id it = itemID c) (Items d))))
       (filter (\<lambda>c. verificationStatus c = ''Pending'') (Claims d)))"

definition get_claims :: "env \<Rightarrow> db \<Rightarrow> db \<times> response" where
  "get_claims e d =
     (let c = get_db d in
      case query e GetClaims_Select select_claims c of
        Inl x \<Rightarrow> (committed c, Failed x)
      | Inr rows \<Rightarrow> (committed c, Response 200 (JArr (map JObj rows))))"

section \<open>Reporting: \<^verbatim>\<open>get_metrics\<close> and \<^verbatim>\<open>get_employees\<close>\<close>

text \<open>
  SQL \<^verbatim>\<open>AVG\<close>: NULLs are skipped; NULL when nothing is left; otherwise the double that
  SQLite's floating-point arithmetic yields.
\<close>

definition sql_avg :: "env \<Rightarrow> rat option list \<Rightarrow> rat option" where
  "sql_avg e xs =
     (let ys = concat (map (\<lambda>x. case x of None \<Rightarrow> [] | Some y \<Rightarrow> [y]) xs)
      in if ys = [] then None else Some (avg_double e ys))"

text \<open>
  Python's \<^verbatim>\<open>round(x, 2)\<close> of a double, \<open>x\<close> being the number the double denotes: the
  multiple of 1/100 nearest to that number, and the even one when the number lies exactly
  halfway (\<^verbatim>\<open>round(0.125, 2)\<close> is \<^verbatim>\<open>0.12\<close>). The result is what \<^verbatim>\<open>json.dumps\<close> prints.
  Applied to an exact average instead of the double, it could round a halfway case the other
  way.
\<close>

definition round2 :: "rat \<Rightarrow> rat" where
  "round2 x =
     (let y = x * 100; f = \<lfloor>y\<rfloor>; r = y - of_int f
      in of_int (if r < 1 / 2 then f else if 1 / 2 < r then f + 1
                 else if even f then f else f + 1) / 100)"

text \<open>
  \<^verbatim>\<open>round(unclaimed['avgDays'] or 0, 2)\<close>: \<^verbatim>\<open>None\<close> and \<^verbatim>\<open>0.0\<close> are falsy, and
  \<^verbatim>\<open>round(0, 2)\<close> is the integer \<^verbatim>\<open>0\<close>.
\<close>

definition average_days :: "rat option \<Rightarrow> json" where
  "average_days a =
     (case a of None \<Rightarrow> JInt 0 | Some x \<Rightarrow> if x = 0 then JInt 0 else JReal (round2 x))"

text \<open>
  \<^verbatim>\<open>SELECT COUNT(*) as totalUnclaimed, AVG(julianday('now') - julianday(dateFound)) as
  avgDays FROM Items WHERE isClaimed = 0\<close>
\<close>

definition select_unclaimed_stats :: "env \<Rightarrow> db \<Rightarrow> int \<times> rat option" where
  "select_unclaimed_stats e d =
     (let rows = filter (\<lambda>it. isClaimed it = 0) (Items d)
      in (int (length rows), sql_avg e (map (age_days e Metrics_SelectUnclaimed) rows)))"

text \<open>\<^verbatim>\<open>SELECT COUNT(*) as totalClaimed FROM Items WHERE isClaimed = 1\<close>\<close>

definition select_claimed_count :: "db \<Rightarrow> int" where
  "select_claimed_count d = int (length (filter (\<lambda>it. isClaimed it = 1) (Items d)))"

definition get_metrics :: "env \<Rightarrow> db \<Rightarrow> db \<times> response" where
  "get_metrics e d =
     (let c = get_db d in
      case query e Metrics_SelectUnclaimed (select_unclaimed_stats e) c of
        Inl x \<Rightarrow> (committed c, Failed x)
      | Inr unclaimed \<Rightarrow>
     (case query e Metrics_SelectClaimed select_claimed_count c of
        Inl x \<Rightarrow> (committed c, Failed x)
      | Inr claimed \<Rightarrow>
          (committed c,
           Response 200
             (JArr
                [JObj [(''Status'', JStr ''Unclaimed''),
                       (''TotalItems'', JInt (fst unclaimed)),
                       (''AverageDaysUnclaimed'', average_days (snd unclaimed))],
                 JObj [(''Status'', JStr ''Claimed''),
                       (''TotalItems'', JInt claimed),
                       (''AverageDaysUnclaimed'', JInt 0)]]))))"

definition employee_row :: "employee \<Rightarrow> (string \<times> json) list" where
  "employee_row m =
     [(''employeeID'', JInt (employee_id m)),
      (''firstName'', JStr (firstName m)),
      (''lastName'', JStr (lastName m)),
      (''position'', JStr (position m)),
      (''ItemsManaged'', JInt (itemsManaged m))]"

definition get_employees :: "env \<Rightarrow> db \<Rightarrow> db \<times> response" where
  "get_employees e d =
     (let c = get_db d in
      case query e Employees_Select
             (\<lambda>w. map employee_row (order_by_desc (\<le>) itemsManaged (Employees w))) c of
        Inl x \<Rightarrow> (committed c, Failed x)
      | Inr rows \<Rightarrow> (committed c, Response 200 (JArr (map JObj rows))))"

section \<open>The server as a state machine\<close>

text \<open>The six operations that \<^verbatim>\<open>do_GET\<close> and \<^verbatim>\<open>do_POST\<close> dispatch to a handler.\<close>

datatype request =
    GET_items
  | POST_items json
  | GET_claims
  | POST_approve string
  | GET_metrics
  | GET_employees

fun handle :: "env \<Rightarrow> request \<Rightarrow> db \<Rightarrow> db \<times> response" where
  "handle e GET_items d = get_items e d"
| "handle e (POST_items data) d = add_item e data d"
| "handle e GET_claims d = get_claims e d"
| "handle e (POST_approve cid) d = approve_claim e cid d"
| "handle e GET_metrics d = get_metrics e d"
| "handle e GET_employees d = get_employees e d"

text \<open>
  The server handles one request after the other (\<^verbatim>\<open>HTTPServer.serve_forever\<close>); each
  request comes with its own environment.
\<close>

fun run :: "(env \<times> request) list \<Rightarrow> db \<Rightarrow> db" where
  "run [] d = d"
| "run ((e, r) # rs) d = run rs (fst (handle e r d))"

section \<open>A concrete scenario\<close>

text \<open>
  A database and an environment on which the theorems below are exercised. It is
  2024-01-10, 18:00 UTC (Julian day 2460320.25); no statement fails. The table of
  \<open>scenario_julianday\<close> lists SQLite's \<^verbatim>\<open>julianday\<close> on the dates that occur. All
  times are on multiples of three hours, so every Julian day, age and average of the
  scenario is a double with a handful of bits and the floating-point average is the exact
  one.
\<close>

definition scenario_julianday :: "sqlval \<Rightarrow> rat option" where
  "scenario_julianday v =
     (if v = SText ''2024-01-01'' then Some (4920621 / 2)
      else if v = SText ''2024-01-05'' then Some (4920629 / 2)
      else if v = SText ''2024-01-10 15:00:00'' then Some (19682561 / 8)
      else if v = SText ''2024-01-11'' then Some (4920641 / 2)
      else None)"

definition scenario_text_as_int :: "string \<Rightarrow> int option" where
  "scenario_text_as_int t =
     (if t = ''1'' then Some 1 else if t = ''2'' then Some 2 else if t = ''3'' then Some 3
      else None)"

definition scenario_env :: env where
  "scenario_env =
     \<lparr>datetime_now = (\<lambda>s. ''2024-01-10 18:00:00''),
      julianday_now = (\<lambda>s. 9841281 / 4),
      julianday = scenario_julianday,
      avg_double = (\<lambda>xs. sum_list xs / of_nat (length xs)),
      text_as_int = scenario_text_as_int,
      fault = (\<lambda>s. False)\<rparr>"

text \<open>The same moment, with the database refusing the write to \<^verbatim>\<open>ItemStatus\<close>.\<close>

definition scenario_env_failing :: env where
  "scenario_env_failing = scenario_env\<lparr>fault := (\<lambda>s. s = Approve_InsertStatus)\<rparr>"

definition umbrella :: item where
  "umbrella =
     \<lparr>item_id = 1, name = SText ''Umbrella'', category = SText ''Accessories'',
      description = SText ''Black, folding'', color = SText ''Black'',
      dateFound = SText ''2024-01-01'', foundAt = SText ''Library'',
      isClaimed = 0, dateUpdated = ''2024-01-01 09:00:00''\<rparr>"

definition wallet :: item where
  "wallet =
     \<lparr>item_id = 2, name = SText ''Wallet'', category = SText ''Personal'',
      description = SText ''Leather'', color = SText ''Brown'',
      dateFound = SText ''2024-01-05'', foundAt = SText ''Cafeteria'',
      isClaimed = 1, dateUpdated = ''2024-01-06 10:00:00''\<rparr>"

text \<open>Registered with tomorrow's date (the finder's local date is ahead of UTC).\<close>

definition phone :: item where
  "phone =
     \<lparr>item_id = 3, name = SText ''Phone'', category = SText ''Electronics'',
      description = SText ''Cracked screen'', color = SText ''Blue'',
      dateFound = SText ''2024-01-11'', foundAt = SText ''Gym'',
      isClaimed = 0, dateUpdated = ''2024-01-10 17:00:00''\<rparr>"

text \<open>Found three hours ago, an eighth of a day.\<close>

definition scarf :: item where
  "scarf =
     \<lparr>item_id = 1, name = SText ''Scarf'', category = SText ''Clothing'',
      description = SText ''Wool'', color = SText ''Red'',
      dateFound = SText ''2024-01-10 15:00:00'', foundAt = SText ''Lobby'',
      isClaimed = 0, dateUpdated = ''2024-01-10 15:05:00''\<rparr>"

definition claim_of_umbrella :: claim where
  "claim_of_umbrella =
     \<lparr>claim_id = 1, itemID = 1, ownerFirstName = ''Meera'', ownerLastName = ''Nair'',
      verificationCode = ''UMB-1'', claimDate = ''2024-01-08'',
      verificationStatus = ''Pending'', handledBy = None\<rparr>"

definition second_claim_of_umbrella :: claim where
  "second_claim_of_umbrella =
     \<lparr>claim_id = 2, itemID = 1, ownerFirstName = ''Ravi'', ownerLastName = ''Shetty'',
      verificationCode = ''UMB-2'', claimDate = ''2024-01-09'',
      verificationStatus = ''Pending'', handledBy = None\<rparr>"

definition claim_of_wallet :: claim where
  "claim_of_wallet =
     \<lparr>claim_id = 3, itemID = 2, ownerFirstName = ''Kiran'', ownerLastName = ''Bhat'',
      verificationCode = ''WAL-1'', claimDate = ''2024-01-06'',
      verificationStatus = ''Approved'', handledBy = Some 1\<rparr>"

definition clerk :: employee where
  "clerk =
     \<lparr>employee_id = 1, firstName = ''Asha'', lastName = ''Rao'', position = ''Clerk'',
      itemsManaged = 5\<rparr>"

definition scenario_db :: db where
  "scenario_db =
     \<lparr>Items = [umbrella, wallet, phone],
      Claims = [claim_of_umbrella, second_claim_of_umbrella, claim_of_wallet],
      ItemStatus = [\<lparr>status_itemID = 2, status = ''Claimed'', statusDate = ''2024-01-06 10:00:00''\<rparr>],
      Employees = [clerk]\<rparr>"

definition empty_db :: db where
  "empty_db = \<lparr>Items = [], Claims = [], ItemStatus = [], Employees = []\<rparr>"

text \<open>Registration requests: a complete one, and three malformed ones.\<close>

definition gloves_request :: json where
  "gloves_request =
     JObj [(''itemName'', JStr ''Gloves''), (''itemCategory'', JStr ''Clothing''),
           (''color'', JStr ''Grey''), (''itemDescription'', JStr ''Knitted''),
           (''dateFound'', JStr ''2024-01-10''), (''FoundAt'', JStr ''Bus stop'')]"

text \<open>Every field present, every value the empty string.\<close>

definition blank_request :: json where
  "blank_request =
     JObj [(''itemName'', JStr []), (''itemCategory'', JStr []),
           (''color'', JStr []), (''itemDescription'', JStr []),
           (''dateFound'', JStr []), (''FoundAt'', JStr [])]"

text \<open>Not an object: the JSON array of the six key names.\<close>

definition key_list_request :: json where
  "key_list_request =
     JArr [JStr ''itemName'', JStr ''itemCategory'', JStr ''color'',
           JStr ''itemDescription'', JStr ''dateFound'', JStr ''FoundAt'']"

text \<open>Every field present and non-empty, the name given as a JSON array.\<close>

definition name_list_request :: json where
  "name_list_request =
     JObj [(''itemName'', JArr [JStr ''Gloves'']), (''itemCategory'', JStr ''Clothing''),
           (''color'', JStr ''Grey''), (''itemDescription'', JStr ''Knitted''),
           (''dateFound'', JStr ''2024-01-10''), (''FoundAt'', JStr ''Bus stop'')]"

text \<open>The row a successful registration of the gloves adds to the scenario.\<close>

definition gloves :: item where
  "gloves =
     \<lparr>item_id = 4, name = SText ''Gloves'', category = SText ''Clothing'',
      description = SText ''Knitted'', color = SText ''Grey'',
      dateFound = SText ''2024-01-10'', foundAt = SText ''Bus stop'',
      isClaimed = 0, dateUpdated = ''2024-01-10 18:00:00''\<rparr>"

section \<open>Properties of \<^verbatim>\<open>approve_claim\<close>\<close>

text \<open>The three ways the handler ends, by what the \<^verbatim>\<open>SELECT\<close> finds and what fails.\<close>

lemma approve_claim_none:
  assumes "select_pending e cid d = None"
  shows "approve_claim e cid d =
     (d, if fault e Approve_Begin then Failed (DatabaseError Approve_Begin)
         else if fault e Approve_Select then Failed (DatabaseError Approve_Select)
         else Response 404 (JObj [(''error'', JStr ''Claim not found or already processed'')]))"
  using assms
  by (simp add: approve_claim_def approve_try_def execute_def query_def get_db_def rollback_def)

lemma approve_claim_some_ok:
  assumes "select_pending e cid d = Some i" and "\<forall>s\<in>set approve_stmts. \<not> fault e s"
  shows "approve_claim e cid d =
     (insert_status e i (update_item e i (update_claim e cid d)),
      Response 200 (JObj [(''success'', JBool True), (''claimID'', JStr cid), (''itemID'', JInt i)]))"
  using assms
  by (simp add: approve_claim_def approve_try_def execute_def query_def commit_def get_db_def
      approve_stmts_def)

lemma approve_claim_fault:
  assumes "s \<in> set approve_stmts" and "fault e s" and "select_pending e cid d = Some i"
  shows "\<exists>s'\<in>set approve_stmts. fault e s' \<and> approve_claim e cid d = (d, Failed (DatabaseError s'))"
  using assms
  by (auto simp add: approve_claim_def approve_try_def execute_def query_def commit_def get_db_def
      approve_stmts_def rollback_def)

lemma select_pending_unique:
  assumes "distinct (map claim_id (Claims d))" and "c \<in> set (Claims d)"
    and "id_is e cid (claim_id c)" and "verificationStatus c = ''Pending''"
  shows "select_pending e cid d = Some (itemID c)"
proof -
  let ?P = "\<lambda>x. id_is e cid (claim_id x) \<and> verificationStatus x = ''Pending''"
  obtain x where fx: "find ?P (Claims d) = Some x"
    using assms(2-4) by (cases "find ?P (Claims d)") (auto simp: find_None_iff)
  then have "x \<in> set (Claims d)" and "id_is e cid (claim_id x)"
    by (auto simp: find_Some_iff)
  then have "claim_id x = claim_id c"
    using assms(3) by (simp add: id_is_def)
  with \<open>x \<in> set (Claims d)\<close> assms(1,2) have "x = c"
    by (meson distinct_map inj_onD)
  with fx show ?thesis by (simp add: select_pending_def)
qed

lemma select_pending_None_iff:
  "select_pending e cid d = None \<longleftrightarrow>
     (\<forall>c\<in>set (Claims d). id_is e cid (claim_id c) \<longrightarrow> verificationStatus c \<noteq> ''Pending'')"
  by (auto simp: select_pending_def find_None_iff)

lemma id_is_same: "id_is e cid n \<Longrightarrow> id_is e cid m \<longleftrightarrow> m = n"
  by (auto simp: id_is_def)

lemma approved_state:
  assumes "id_is e cid n"
  shows "insert_status e i (update_item e i (update_claim e cid d)) =
     d\<lparr>Claims := map (\<lambda>x. if claim_id x = n then x\<lparr>verificationStatus := ''Approved''\<rparr> else x) (Claims d),
       Items := map (\<lambda>it. if item_id it = i
                           then it\<lparr>isClaimed := 1, dateUpdated := datetime_now e Approve_UpdateItem\<rparr>
                           else it) (Items d),
       ItemStatus := ItemStatus d @
          [\<lparr>status_itemID = i, status = ''Claimed'',
            statusDate = datetime_now e Approve_InsertStatus\<rparr>]\<rparr>"
  using assms by (simp add: insert_status_def update_item_def update_claim_def id_is_same)

text \<open>
  C2. When the claim identifier matches no claim, or only claims whose status is not
  \<open>Pending\<close>, \<^verbatim>\<open>approve_claim\<close> leaves the whole database (items, claims, status
  history, employees) as it was and answers 404 with the message
  \<^verbatim>\<open>Claim not found or already processed\<close>. The two statements that run before the
  answer may fail; then the answer is the 500 of the exception handler, and the database
  is unchanged all the same.
\<close>

theorem approve_claim_not_pending:
  assumes "\<forall>c\<in>set (Claims d). id_is e cid (claim_id c) \<longrightarrow> verificationStatus c \<noteq> ''Pending''"
  shows "approve_claim e cid d =
     (d, if fault e Approve_Begin then Failed (DatabaseError Approve_Begin)
         else if fault e Approve_Select then Failed (DatabaseError Approve_Select)
         else Response 404 (JObj [(''error'', JStr ''Claim not found or already processed'')]))"
  using assms approve_claim_none select_pending_None_iff by blast

text \<open>The definitions of the scenario, for evaluation.\<close>

lemmas scenario_defs =
  scenario_db_def scenario_env_def scenario_env_failing_def scenario_text_as_int_def
  scenario_julianday_def umbrella_def wallet_def phone_def scarf_def claim_of_umbrella_def
  second_claim_of_umbrella_def claim_of_wallet_def clerk_def empty_db_def gloves_def

text \<open>In the scenario, claim 3 is already approved: approving it again is refused.\<close>

theorem approve_claim_not_pending_witness:
  "approve_claim scenario_env ''3'' scenario_db =
     (scenario_db, Response 404 (JObj [(''error'', JStr ''Claim not found or already processed'')]))"
  using approve_claim_not_pending [of scenario_db scenario_env "''3''"]
  by (simp add: scenario_defs id_is_def)

text \<open>
  C1. Let the claim identifier denote a \<open>Pending\<close> claim \<open>c\<close> (identifiers being unique).
  If none of the six statements fails, \<^verbatim>\<open>approve_claim\<close> sets the status of \<open>c\<close> to
  \<open>Approved\<close>, sets \<open>isClaimed\<close> to 1 and \<open>dateUpdated\<close> to the current time on the item
  \<open>c\<close> refers to, appends exactly one \<open>Claimed\<close> row for that item to the status history,
  changes nothing else and answers 200. If any statement fails, the database is exactly
  the one before the request and the answer is the 500 of the exception handler. No other
  outcome exists: all four writes persist, or none.
\<close>

theorem approve_claim_pending:
  assumes "distinct (map claim_id (Claims d))"
    and "c \<in> set (Claims d)"
    and "id_is e cid (claim_id c)"
    and "verificationStatus c = ''Pending''"
  shows "if \<exists>s\<in>set approve_stmts. fault e s
     then \<exists>s\<in>set approve_stmts. fault e s \<and> approve_claim e cid d = (d, Failed (DatabaseError s))
     else approve_claim e cid d =
       (d\<lparr>Claims :=
            map (\<lambda>x. if claim_id x = claim_id c then x\<lparr>verificationStatus := ''Approved''\<rparr> else x)
              (Claims d),
          Items :=
            map (\<lambda>it. if item_id it = itemID c
                       then it\<lparr>isClaimed := 1, dateUpdated := datetime_now e Approve_UpdateItem\<rparr>
                       else it)
              (Items d),
          ItemStatus :=
            ItemStatus d @
              [\<lparr>status_itemID = itemID c, status = ''Claimed'',
                statusDate = datetime_now e Approve_InsertStatus\<rparr>]\<rparr>,
        Response 200
          (JObj [(''success'', JBool True), (''claimID'', JStr cid), (''itemID'', JInt (itemID c))]))"
proof -
  have sel: "select_pending e cid d = Some (itemID c)"
    using assms by (rule select_pending_unique)
  show ?thesis
  proof (cases "\<exists>s\<in>set approve_stmts. fault e s")
    case True
    then show ?thesis using approve_claim_fault [OF _ _ sel] by auto
  next
    case False
    then show ?thesis
      using approve_claim_some_ok [OF sel] approved_state [OF assms(3)] by simp
  qed
qed

text \<open>
  In the scenario, approving claim 1 marks the umbrella; with the history table refusing
  the insert, the same request leaves the database untouched.
\<close>

theorem approve_claim_pending_witness:
  "approve_claim scenario_env ''1'' scenario_db =
     (scenario_db
        \<lparr>Claims := [claim_of_umbrella\<lparr>verificationStatus := ''Approved''\<rparr>,
                    second_claim_of_umbrella, claim_of_wallet],
         Items := [umbrella\<lparr>isClaimed := 1, dateUpdated := ''2024-01-10 18:00:00''\<rparr>,
                   wallet, phone],
         ItemStatus :=
           [\<lparr>status_itemID = 2, status = ''Claimed'', statusDate = ''2024-01-06 10:00:00''\<rparr>,
            \<lparr>status_itemID = 1, status = ''Claimed'', statusDate = ''2024-01-10 18:00:00''\<rparr>]\<rparr>,
      Response 200 (JObj [(''success'', JBool True), (''claimID'', JStr ''1''), (''itemID'', JInt 1)]))
   \<and> approve_claim scenario_env_failing ''1'' scenario_db =
     (scenario_db, Failed (DatabaseError Approve_InsertStatus))"
  using approve_claim_pending [of scenario_db claim_of_umbrella scenario_env "''1''"]
    approve_claim_pending [of scenario_db claim_of_umbrella scenario_env_failing "''1''"]
  by (simp add: scenario_defs id_is_def approve_stmts_def)

text \<open>Whatever the input, the handler ends in one of three ways.\<close>

lemma approve_claim_cases:
  "(\<exists>s. approve_claim e cid d = (d, Failed (DatabaseError s)))
   \<or> approve_claim e cid d =
        (d, Response 404 (JObj [(''error'', JStr ''Claim not found or already processed'')]))
   \<or> (\<exists>i. select_pending e cid d = Some i \<and>
         approve_claim e cid d =
          (insert_status e i (update_item e i (update_claim e cid d)),
           Response 200
             (JObj [(''success'', JBool True), (''claimID'', JStr cid), (''itemID'', JInt i)])))"
proof (cases "select_pending e cid d")
  case None
  then show ?thesis using approve_claim_none [of e cid d] by auto
next
  case (Some i)
  show ?thesis
  proof (cases "\<exists>s\<in>set approve_stmts. fault e s")
    case True
    then show ?thesis using approve_claim_fault [OF _ _ Some] by blast
  next
    case False
    then show ?thesis using approve_claim_some_ok [OF Some] Some by simp
  qed
qed

text \<open>
  C9. Every approval that answers 200 leaves the \<open>Employees\<close> table as it was (no
  \<open>itemsManaged\<close> count moves). Its writes are: the status of the claims with the given
  identifier, \<open>isClaimed\<close> and \<open>dateUpdated\<close> of the item referred to, and one row appended
  to the status history; every other row and column is unchanged.
\<close>

theorem approve_claim_frame:
  assumes "approve_claim e cid d = (d', Response 200 body)"
  shows "\<exists>i. body = JObj [(''success'', JBool True), (''claimID'', JStr cid), (''itemID'', JInt i)]
     \<and> Employees d' = Employees d
     \<and> Claims d' =
         map (\<lambda>c. if id_is e cid (claim_id c) then c\<lparr>verificationStatus := ''Approved''\<rparr> else c)
           (Claims d)
     \<and> Items d' =
         map (\<lambda>it. if item_id it = i
                    then it\<lparr>isClaimed := 1, dateUpdated := datetime_now e Approve_UpdateItem\<rparr>
                    else it)
           (Items d)
     \<and> ItemStatus d' =
         ItemStatus d @
           [\<lparr>status_itemID = i, status = ''Claimed'',
             statusDate = datetime_now e Approve_InsertStatus\<rparr>]"
  using approve_claim_cases [of e cid d] assms
  by (auto simp: insert_status_def update_item_def update_claim_def)

text \<open>In the scenario, approving claim 2 leaves the clerk's record alone.\<close>

theorem approve_claim_frame_witness:
  "\<exists>d' body. approve_claim scenario_env ''2'' scenario_db = (d', Response 200 body)
     \<and> Employees d' = [clerk]
     \<and> map verificationStatus (Claims d') = [''Pending'', ''Approved'', ''Approved'']
     \<and> map isClaimed (Items d') = [1, 1, 0]
     \<and> length (ItemStatus d') = 2"
proof -
  obtain d' r where a: "approve_claim scenario_env ''2'' scenario_db = (d', r)"
    by (cases "approve_claim scenario_env ''2'' scenario_db")
  have s: "select_pending scenario_env ''2'' scenario_db = Some 1"
    by (simp add: select_pending_def scenario_defs id_is_def)
  have r: "r = Response 200 (JObj [(''success'', JBool True), (''claimID'', JStr ''2''), (''itemID'', JInt 1)])"
    using a approve_claim_some_ok [OF s] by (simp add: scenario_env_def approve_stmts_def)
  from approve_claim_frame [OF a [unfolded r]] a r show ?thesis
    by (auto simp: scenario_defs id_is_def)
qed

text \<open>No outcome of the handler touches the \<open>Employees\<close> table.\<close>

lemma approve_claim_employees: "Employees (fst (approve_claim e cid d)) = Employees d"
  using approve_claim_cases [of e cid d]
  by (auto simp: insert_status_def update_item_def update_claim_def)

text \<open>The state after a successful approval, table by table.\<close>

lemma update_claim_keeps_other:
  assumes "c \<in> set (Claims d)" and "\<not> id_is e cid (claim_id c)"
  shows "c \<in> set (Claims (insert_status e i (update_item e i (update_claim e cid d))))"
proof -
  let ?f = "\<lambda>x. if id_is e cid (claim_id x) then x\<lparr>verificationStatus := ''Approved''\<rparr> else x"
  have "?f c \<in> ?f ` set (Claims d)"
    using assms(1) by (rule imageI)
  moreover have "?f c = c"
    using assms(2) by simp
  ultimately have "c \<in> ?f ` set (Claims d)"
    by simp
  then show ?thesis
    by (simp add: insert_status_def update_item_def update_claim_def)
qed

lemma claim_id_approved:
  "claim_id (if b then x\<lparr>verificationStatus := s\<rparr> else x) = claim_id x"
  by simp

lemma update_claim_ids:
  "map claim_id (Claims (insert_status e i (update_item e i (update_claim e cid d)))) =
     map claim_id (Claims d)"
  by (simp add: insert_status_def update_item_def update_claim_def comp_def claim_id_approved)

lemma approved_Items:
  "Items (insert_status e i (update_item e i (update_claim e cid d))) =
     map (\<lambda>it. if item_id it = i
                then it\<lparr>isClaimed := 1, dateUpdated := datetime_now e Approve_UpdateItem\<rparr>
                else it)
       (Items d)"
  by (simp add: insert_status_def update_item_def update_claim_def)

lemma approved_ItemStatus:
  "ItemStatus (insert_status e i (update_item e i (update_claim e cid d))) =
     ItemStatus d @
       [\<lparr>status_itemID = i, status = ''Claimed'',
         statusDate = datetime_now e Approve_InsertStatus\<rparr>]"
  by (simp add: insert_status_def update_item_def update_claim_def)

lemma mark_twice:
  "map (\<lambda>it. if item_id it = i then it\<lparr>isClaimed := 1, dateUpdated := t2\<rparr> else it)
     (map (\<lambda>it. if item_id it = i then it\<lparr>isClaimed := 1, dateUpdated := t1\<rparr> else it) xs) =
   map (\<lambda>it. if item_id it = i then it\<lparr>isClaimed := 1, dateUpdated := t2\<rparr> else it) xs"
  by (induction xs) simp_all

lemma marked_claimed:
  assumes "it \<in> set (map (\<lambda>x. if item_id x = i then x\<lparr>isClaimed := 1, dateUpdated := t\<rparr> else x) xs)"
    and "item_id it = i"
  shows "isClaimed it = 1"
proof -
  from assms(1) obtain x
    where x: "it = (if item_id x = i then x\<lparr>isClaimed := 1, dateUpdated := t\<rparr> else x)"
    unfolding set_map by (rule imageE)
  show ?thesis
  proof (cases "item_id x = i")
    case True
    with x show ?thesis by simp
  next
    case False
    with x assms(2) show ?thesis by simp
  qed
qed

text \<open>
  C10. The check before the writes looks at the claim's status only, not at the item's
  \<open>isClaimed\<close>. Let two distinct \<open>Pending\<close> claims refer to the same item \<open>i\<close>, and let no
  statement fail. Approving the first answers 200 and leaves every item \<open>i\<close> claimed;
  approving the second then answers 200 as well, marks the already claimed item again
  (refreshing \<open>dateUpdated\<close>) and appends a second \<open>Claimed\<close> row for \<open>i\<close> to the history.
\<close>

theorem approve_second_claim_same_item:
  assumes "distinct (map claim_id (Claims d))"
    and "c1 \<in> set (Claims d)" and "c2 \<in> set (Claims d)"
    and "claim_id c1 \<noteq> claim_id c2"
    and "verificationStatus c1 = ''Pending''" and "verificationStatus c2 = ''Pending''"
    and "itemID c1 = i" and "itemID c2 = i"
    and "id_is e1 cid1 (claim_id c1)" and "id_is e2 cid2 (claim_id c2)"
    and "\<forall>s\<in>set approve_stmts. \<not> fault e1 s" and "\<forall>s\<in>set approve_stmts. \<not> fault e2 s"
  shows "\<exists>d1 d2.
       approve_claim e1 cid1 d =
         (d1, Response 200
                (JObj [(''success'', JBool True), (''claimID'', JStr cid1), (''itemID'', JInt i)]))
     \<and> approve_claim e2 cid2 d1 =
         (d2, Response 200
                (JObj [(''success'', JBool True), (''claimID'', JStr cid2), (''itemID'', JInt i)]))
     \<and> (\<forall>it\<in>set (Items d1). item_id it = i \<longrightarrow> isClaimed it = 1)
     \<and> Items d2 =
         map (\<lambda>it. if item_id it = i
                    then it\<lparr>isClaimed := 1, dateUpdated := datetime_now e2 Approve_UpdateItem\<rparr>
                    else it)
           (Items d)
     \<and> ItemStatus d2 =
         ItemStatus d @
           [\<lparr>status_itemID = i, status = ''Claimed'',
             statusDate = datetime_now e1 Approve_InsertStatus\<rparr>,
            \<lparr>status_itemID = i, status = ''Claimed'',
             statusDate = datetime_now e2 Approve_InsertStatus\<rparr>]"
proof -
  define d1 where "d1 = insert_status e1 i (update_item e1 i (update_claim e1 cid1 d))"
  define d2 where "d2 = insert_status e2 i (update_item e2 i (update_claim e2 cid2 d1))"
  have "select_pending e1 cid1 d = Some (itemID c1)"
    using assms(1,2,9,5) by (rule select_pending_unique)
  then have sel1: "select_pending e1 cid1 d = Some i"
    by (simp only: assms(7))
  have first: "approve_claim e1 cid1 d =
      (d1, Response 200
             (JObj [(''success'', JBool True), (''claimID'', JStr cid1), (''itemID'', JInt i)]))"
    unfolding d1_def using sel1 assms(11) by (rule approve_claim_some_ok)
  have "\<not> id_is e1 cid1 (claim_id c2)"
    using assms(4,9) by (auto simp: id_is_def)
  with assms(3) have c2_in: "c2 \<in> set (Claims d1)"
    unfolding d1_def by (rule update_claim_keeps_other)
  have dist1: "distinct (map claim_id (Claims d1))"
    unfolding d1_def using assms(1) by (simp only: update_claim_ids)
  have "select_pending e2 cid2 d1 = Some (itemID c2)"
    using dist1 c2_in assms(10,6) by (rule select_pending_unique)
  then have sel2: "select_pending e2 cid2 d1 = Some i"
    by (simp only: assms(8))
  have second: "approve_claim e2 cid2 d1 =
      (d2, Response 200
             (JObj [(''success'', JBool True), (''claimID'', JStr cid2), (''itemID'', JInt i)]))"
    unfolding d2_def using sel2 assms(12) by (rule approve_claim_some_ok)
  have items1: "Items d1 =
      map (\<lambda>it. if item_id it = i
                 then it\<lparr>isClaimed := 1, dateUpdated := datetime_now e1 Approve_UpdateItem\<rparr>
                 else it)
        (Items d)"
    unfolding d1_def by (rule approved_Items)
  have claimed1: "\<forall>it\<in>set (Items d1). item_id it = i \<longrightarrow> isClaimed it = 1"
    unfolding items1 using marked_claimed by blast
  have items2: "Items d2 =
      map (\<lambda>it. if item_id it = i
                 then it\<lparr>isClaimed := 1, dateUpdated := datetime_now e2 Approve_UpdateItem\<rparr>
                 else it)
        (Items d)"
    unfolding d2_def approved_Items items1 by (rule mark_twice)
  have log1: "ItemStatus d1 =
      ItemStatus d @
        [\<lparr>status_itemID = i, status = ''Claimed'',
          statusDate = datetime_now e1 Approve_InsertStatus\<rparr>]"
    unfolding d1_def by (rule approved_ItemStatus)
  have log2: "ItemStatus d2 =
      ItemStatus d @
        [\<lparr>status_itemID = i, status = ''Claimed'',
          statusDate = datetime_now e1 Approve_InsertStatus\<rparr>,
         \<lparr>status_itemID = i, status = ''Claimed'',
          statusDate = datetime_now e2 Approve_InsertStatus\<rparr>]"
    unfolding d2_def approved_ItemStatus log1 by simp
  show ?thesis
  proof (intro exI conjI)
    show "approve_claim e1 cid1 d =
      (d1, Response 200
             (JObj [(''success'', JBool True), (''claimID'', JStr cid1), (''itemID'', JInt i)]))"
      by (rule first)
  qed (rule second claimed1 items2 log2)+
qed

text \<open>In the scenario, claims 1 and 2 are both for the umbrella.\<close>

theorem approve_second_claim_same_item_witness:
  "\<exists>d1 d2.
       approve_claim scenario_env ''1'' scenario_db =
         (d1, Response 200
                (JObj [(''success'', JBool True), (''claimID'', JStr ''1''), (''itemID'', JInt 1)]))
     \<and> approve_claim scenario_env ''2'' d1 =
         (d2, Response 200
                (JObj [(''success'', JBool True), (''claimID'', JStr ''2''), (''itemID'', JInt 1)]))
     \<and> (\<forall>it\<in>set (Items d1). item_id it = 1 \<longrightarrow> isClaimed it = 1)
     \<and> Items d2 =
         map (\<lambda>it. if item_id it = 1
                    then it\<lparr>isClaimed := 1,
                            dateUpdated := datetime_now scenario_env Approve_UpdateItem\<rparr>
                    else it)
           (Items scenario_db)
     \<and> ItemStatus d2 =
         ItemStatus scenario_db @
           [\<lparr>status_itemID = 1, status = ''Claimed'',
             statusDate = datetime_now scenario_env Approve_InsertStatus\<rparr>,
            \<lparr>status_itemID = 1, status = ''Claimed'',
             statusDate = datetime_now scenario_env Approve_InsertStatus\<rparr>]"
proof (rule approve_second_claim_same_item
          [of scenario_db claim_of_umbrella second_claim_of_umbrella 1 scenario_env "''1''"
              scenario_env "''2''"])
  show "distinct (map claim_id (Claims scenario_db))"
    by (simp add: scenario_defs)
  show "claim_of_umbrella \<in> set (Claims scenario_db)"
    and "second_claim_of_umbrella \<in> set (Claims scenario_db)"
    by (simp_all add: scenario_db_def)
  show "claim_id claim_of_umbrella \<noteq> claim_id second_claim_of_umbrella"
    by (simp add: claim_of_umbrella_def second_claim_of_umbrella_def)
  show "verificationStatus claim_of_umbrella = ''Pending''"
    and "itemID claim_of_umbrella = 1"
    by (simp_all add: claim_of_umbrella_def)
  show "verificationStatus second_claim_of_umbrella = ''Pending''"
    and "itemID second_claim_of_umbrella = 1"
    by (simp_all add: second_claim_of_umbrella_def)
  show "id_is scenario_env ''1'' (claim_id claim_of_umbrella)"
    by (simp add: id_is_def scenario_env_def scenario_text_as_int_def claim_of_umbrella_def)
  show "id_is scenario_env ''2'' (claim_id second_claim_of_umbrella)"
    by (simp add: id_is_def scenario_env_def scenario_text_as_int_def
        second_claim_of_umbrella_def)
  show "\<forall>s\<in>set approve_stmts. \<not> fault scenario_env s"
    by (simp add: scenario_env_def)
  then show "\<forall>s\<in>set approve_stmts. \<not> fault scenario_env s" .
qed

section \<open>Properties of \<^verbatim>\<open>add_item\<close>\<close>

text \<open>On a dict, the check of the required fields is a check of its keys.\<close>

lemma has_all_object:
  "has_all ks (JObj kvs) = Inr (set ks \<subseteq> fst ` set kvs)"
  by (induction ks) simp_all

lemma add_item_400:
  assumes "has_all required data = Inr False"
  shows "add_item e data d =
     (d, Response 400 (JObj [(''error'', JStr ''Missing required fields'')]))"
  using assms by (simp add: add_item_def add_item_try_def)

text \<open>
  C4, as amended. When the body of the request is a JSON object that lacks one of the six
  required keys, \<^verbatim>\<open>add_item\<close> answers 400 with \<^verbatim>\<open>Missing required fields\<close> and the
  database is unchanged. (The check is on the presence of the keys, not on their values.)
\<close>

theorem add_item_missing_key:
  assumes "k \<in> set required" and "k \<notin> fst ` set kvs"
  shows "add_item e (JObj kvs) d =
     (d, Response 400 (JObj [(''error'', JStr ''Missing required fields'')]))"
proof -
  have "\<not> set required \<subseteq> fst ` set kvs"
    using assms by blast
  then have "has_all required (JObj kvs) = Inr False"
    by (simp only: has_all_object)
  then show ?thesis
    by (rule add_item_400)
qed

text \<open>A request that names the item only.\<close>

theorem add_item_missing_key_witness:
  "add_item scenario_env (JObj [(''itemName'', JStr ''Gloves'')]) scenario_db =
     (scenario_db, Response 400 (JObj [(''error'', JStr ''Missing required fields'')]))"
  using add_item_missing_key [of "''color''" "[(''itemName'', JStr ''Gloves'')]" scenario_env scenario_db]
  by (simp add: required_def)

text \<open>The new identifier is fresh, so the \<^verbatim>\<open>SELECT\<close> after the insert finds the new row.\<close>

lemma next_rowid_fresh: "next_rowid ids \<notin> set ids"
proof (cases "ids = []")
  case True
  then show ?thesis by simp
next
  case False
  have "\<And>x. x \<in> set ids \<Longrightarrow> x \<le> Max (set ids)"
    by simp
  then have "Max (set ids) + 1 \<notin> set ids"
    by fastforce
  with False show ?thesis by (simp add: next_rowid_def)
qed

lemma find_appended:
  assumes "\<forall>x\<in>set xs. \<not> P x" and "P y"
  shows "find P (xs @ [y]) = Some y"
  using assms by (induction xs) simp_all

lemma select_created_new:
  assumes "item_id it = next_rowid (map item_id (Items d))"
  shows "select_created (item_id it) (d\<lparr>Items := Items d @ [it]\<rparr>) = Some (created_row it)"
proof -
  have "\<forall>x\<in>set (Items d). item_id x \<noteq> item_id it"
    using next_rowid_fresh [of "map item_id (Items d)"] assms by force
  then have "find (\<lambda>x. item_id x = item_id it) (Items d @ [it]) = Some it"
    using find_appended [of "Items d" "\<lambda>x. item_id x = item_id it" it] by simp
  then show ?thesis by (simp add: select_created_def)
qed

lemma select_created_insert:
  "select_created (next_rowid (map item_id (Items d))) (insert_item e ps d) =
     Some (created_row (last (Items (insert_item e ps d))))"
proof -
  obtain p1 p2 p3 p4 p5 p6 where ps: "ps = (p1, p2, p3, p4, p5, p6)"
    by (cases ps)
  define it where "it =
     \<lparr>item_id = next_rowid (map item_id (Items d)),
      name = p1, category = p2, description = p3, color = p4,
      dateFound = p5, foundAt = p6, isClaimed = 0,
      dateUpdated = datetime_now e AddItem_Insert\<rparr>"
  have ins: "insert_item e ps d = d\<lparr>Items := Items d @ [it]\<rparr>"
    by (simp add: insert_item_def ps it_def)
  have id: "item_id it = next_rowid (map item_id (Items d))"
    by (simp add: it_def)
  have "select_created (item_id it) (d\<lparr>Items := Items d @ [it]\<rparr>) = Some (created_row it)"
    using id by (rule select_created_new)
  then show ?thesis
    unfolding ins id by simp
qed

lemma add_item_ok:
  assumes "has_all required data = Inr True" and "item_params data = Inr ps"
    and "\<not> fault e AddItem_Insert" and "\<not> fault e AddItem_Commit"
    and "\<not> fault e AddItem_Select"
  shows "add_item e data d =
     (insert_item e ps d,
      Response 201 (JObj (created_row (last (Items (insert_item e ps d))))))"
  using assms
  by (simp add: add_item_def add_item_try_def execute_def commit_def query_def get_db_def
      select_created_insert)

lemma has_key: "map_of kvs k = Some v \<Longrightarrow> k \<in> fst ` set kvs"
  by (metis map_of_eq_None_iff option.distinct(1))

text \<open>
  C5, as amended. Let the body be a JSON object that has the six required keys, each with
  a value SQLite can bind (null, a boolean, a number of at most 64 bits, a string, the
  empty string included), and let none of the three statements fail. Then \<^verbatim>\<open>add_item\<close>
  appends exactly one row to \<open>Items\<close>, with a fresh identifier, the six values,
  \<open>isClaimed = 0\<close> and \<open>dateUpdated\<close> the current time, and answers 201 with the
  identifier and the six values of that row. \<open>isClaimed\<close> and \<open>dateUpdated\<close> are not part
  of the answer.
\<close>

theorem add_item_created:
  assumes "map_of kvs ''itemName'' = Some v1" and "bind_param v1 = Inr p1"
    and "map_of kvs ''itemCategory'' = Some v2" and "bind_param v2 = Inr p2"
    and "map_of kvs ''itemDescription'' = Some v3" and "bind_param v3 = Inr p3"
    and "map_of kvs ''color'' = Some v4" and "bind_param v4 = Inr p4"
    and "map_of kvs ''dateFound'' = Some v5" and "bind_param v5 = Inr p5"
    and "map_of kvs ''FoundAt'' = Some v6" and "bind_param v6 = Inr p6"
    and "\<not> fault e AddItem_Insert" and "\<not> fault e AddItem_Commit"
    and "\<not> fault e AddItem_Select"
  shows "add_item e (JObj kvs) d =
     (d\<lparr>Items :=
          Items d @
            [\<lparr>item_id = next_rowid (map item_id (Items d)),
              name = p1, category = p2, description = p3, color = p4,
              dateFound = p5, foundAt = p6, isClaimed = 0,
              dateUpdated = datetime_now e AddItem_Insert\<rparr>]\<rparr>,
      Response 201
        (JObj [(''itemID'', JInt (next_rowid (map item_id (Items d)))),
               (''itemName'', to_json p1),
               (''itemCategory'', to_json p2),
               (''itemDescription'', to_json p3),
               (''color'', to_json p4),
               (''dateFound'', to_json p5),
               (''FoundAt'', to_json p6)]))
   \<and> next_rowid (map item_id (Items d)) \<notin> set (map item_id (Items d))"
proof -
  have "set required \<subseteq> fst ` set kvs"
    using assms(1,3,5,7,9,11) by (simp add: required_def has_key)
  then have all: "has_all required (JObj kvs) = Inr True"
    by (simp only: has_all_object)
  have params: "item_params (JObj kvs) = Inr (p1, p2, p3, p4, p5, p6)"
    using assms(1-12) by (simp add: item_params_def)
  have "add_item e (JObj kvs) d =
     (insert_item e (p1, p2, p3, p4, p5, p6) d,
      Response 201 (JObj (created_row (last (Items (insert_item e (p1, p2, p3, p4, p5, p6) d))))))"
    using all params assms(13-15) by (rule add_item_ok)
  then show ?thesis
    using next_rowid_fresh [of "map item_id (Items d)"]
    by (simp add: insert_item_def created_row_def)
qed

text \<open>The definitions of \<^verbatim>\<open>add_item\<close>, for evaluation.\<close>

lemmas add_item_eval =
  add_item_def add_item_try_def required_def item_params_def execute_def commit_def query_def
  get_db_def insert_item_def next_rowid_def select_created_def created_row_def

text \<open>Registering the gloves in the scenario gives them identifier 4.\<close>

theorem add_item_created_witness:
  "add_item scenario_env gloves_request scenario_db =
     (scenario_db\<lparr>Items := [umbrella, wallet, phone, gloves]\<rparr>,
      Response 201
        (JObj [(''itemID'', JInt 4), (''itemName'', JStr ''Gloves''),
               (''itemCategory'', JStr ''Clothing''), (''itemDescription'', JStr ''Knitted''),
               (''color'', JStr ''Grey''), (''dateFound'', JStr ''2024-01-10''),
               (''FoundAt'', JStr ''Bus stop'')]))"
  using add_item_created
    [where kvs = "[(''itemName'', JStr ''Gloves''), (''itemCategory'', JStr ''Clothing''),
           (''color'', JStr ''Grey''), (''itemDescription'', JStr ''Knitted''),
           (''dateFound'', JStr ''2024-01-10''), (''FoundAt'', JStr ''Bus stop'')]"
       and e = scenario_env and d = scenario_db
       and ?v1.0 = "JStr ''Gloves''" and ?p1.0 = "SText ''Gloves''"
       and ?v2.0 = "JStr ''Clothing''" and ?p2.0 = "SText ''Clothing''"
       and ?v3.0 = "JStr ''Knitted''" and ?p3.0 = "SText ''Knitted''"
       and ?v4.0 = "JStr ''Grey''" and ?p4.0 = "SText ''Grey''"
       and ?v5.0 = "JStr ''2024-01-10''" and ?p5.0 = "SText ''2024-01-10''"
       and ?v6.0 = "JStr ''Bus stop''" and ?p6.0 = "SText ''Bus stop''"]
  by (simp add: gloves_request_def scenario_defs next_rowid_def)

text \<open>
  C4 as stated fails: with every required field present but empty, the item is inserted
  and the answer is 201, not a validation error; and a body that is no object but
  contains the six names is answered with the 500 of the exception handler.
\<close>

theorem add_item_blank_counterexample:
  "add_item scenario_env blank_request empty_db =
     (empty_db
        \<lparr>Items :=
           [\<lparr>item_id = 1, name = SText [], category = SText [], description = SText [],
             color = SText [], dateFound = SText [], foundAt = SText [], isClaimed = 0,
             dateUpdated = ''2024-01-10 18:00:00''\<rparr>]\<rparr>,
      Response 201
        (JObj [(''itemID'', JInt 1), (''itemName'', JStr []), (''itemCategory'', JStr []),
               (''itemDescription'', JStr []), (''color'', JStr []), (''dateFound'', JStr []),
               (''FoundAt'', JStr [])]))
   \<and> add_item scenario_env key_list_request empty_db = (empty_db, Failed TypeError)"
  by (simp add: add_item_eval blank_request_def key_list_request_def scenario_env_def
      empty_db_def)

text \<open>
  C5 as stated fails: the answer to a complete request carries seven entries, among them
  neither the claimed flag nor the last-updated timestamp of the new row; and a request
  whose fields are all present and non-empty, one of them a JSON array, inserts nothing
  and is answered with the 500 of the exception handler.
\<close>

theorem add_item_full_record_counterexample:
  "add_item scenario_env gloves_request scenario_db =
     (scenario_db\<lparr>Items := Items scenario_db @ [gloves]\<rparr>,
      Response 201 (JObj (created_row gloves)))
   \<and> map fst (created_row gloves) =
       [''itemID'', ''itemName'', ''itemCategory'', ''itemDescription'', ''color'',
        ''dateFound'', ''FoundAt'']
   \<and> JInt (isClaimed gloves) \<notin> snd ` set (created_row gloves)
   \<and> JStr (dateUpdated gloves) \<notin> snd ` set (created_row gloves)
   \<and> add_item scenario_env name_list_request scenario_db =
       (scenario_db, Failed BindingError)"
  by (simp add: add_item_eval gloves_request_def name_list_request_def scenario_defs)

section \<open>Properties of \<^verbatim>\<open>get_items\<close>\<close>

text \<open>SQLite's order on values is total and transitive.\<close>

lemma sql_le_total: "sql_le a b \<or> sql_le b a"
  by (cases a; cases b) (simp_all add: linear)

lemma int_rat_int: "rat_of_int x \<le> r \<Longrightarrow> r \<le> rat_of_int y \<Longrightarrow> x \<le> y"
  by (meson of_int_le_iff order_trans)

lemma int_int_rat: "x \<le> y \<Longrightarrow> rat_of_int y \<le> r \<Longrightarrow> rat_of_int x \<le> r"
  by (meson of_int_le_iff order_trans)

lemma rat_int_int: "r \<le> rat_of_int x \<Longrightarrow> x \<le> y \<Longrightarrow> r \<le> rat_of_int y"
  by (meson of_int_le_iff order_trans)

lemma sql_le_trans: "sql_le a b \<Longrightarrow> sql_le b c \<Longrightarrow> sql_le a c"
  by (cases a; cases b; cases c; simp)

text \<open>\<^verbatim>\<open>ORDER BY ... DESC\<close> permutes the rows and leaves them in descending order.\<close>

lemma mset_insert_desc: "mset (insert_desc le key x ys) = add_mset x (mset ys)"
  by (induction ys) simp_all

lemma mset_order_by_desc: "mset (order_by_desc le key rows) = mset rows"
  unfolding order_by_desc_def by (induction rows) (simp_all add: mset_insert_desc)

lemma set_insert_desc: "set (insert_desc le key x ys) = insert x (set ys)"
  using mset_insert_desc [of le key x ys] by (metis set_mset_add_mset_insert set_mset_mset)

lemma sorted_insert_desc:
  assumes total: "\<And>a b. le a b \<or> le b a"
    and trans: "\<And>a b c. le a b \<Longrightarrow> le b c \<Longrightarrow> le a c"
    and "sorted_wrt (\<lambda>a b. le (key b) (key a)) ys"
  shows "sorted_wrt (\<lambda>a b. le (key b) (key a)) (insert_desc le key x ys)"
  using assms(3)
proof (induction ys)
  case Nil
  then show ?case by simp
next
  case (Cons y ys)
  show ?case
  proof (cases "le (key y) (key x)")
    case True
    have "\<And>z. z \<in> set ys \<Longrightarrow> le (key z) (key x)"
      using Cons.prems True trans by auto
    with True Cons.prems show ?thesis by simp
  next
    case False
    then have "le (key x) (key y)"
      using total by blast
    with False Cons show ?thesis
      by (simp add: set_insert_desc)
  qed
qed

lemma sorted_order_by_desc:
  assumes "\<And>a b. le a b \<or> le b a" and "\<And>a b c. le a b \<Longrightarrow> le b c \<Longrightarrow> le a c"
  shows "sorted_wrt (\<lambda>a b. le (key b) (key a)) (order_by_desc le key rows)"
proof (induction rows)
  case Nil
  show ?case by (simp add: order_by_desc_def)
next
  case (Cons r rows)
  have "sorted_wrt (\<lambda>a b. le (key b) (key a)) (insert_desc le key r (order_by_desc le key rows))"
    using assms Cons.IH by (rule sorted_insert_desc)
  then show ?case by (simp add: order_by_desc_def)
qed

text \<open>The handler, the rows it selects and the derived column.\<close>

lemma get_items_unchanged: "fst (get_items e d) = d"
  by (simp add: get_items_def get_db_def query_def Let_def)

lemma get_items_ok:
  assumes "\<not> fault e GetItems_Select"
  shows "snd (get_items e d) =
     Response 200 (JArr (map (\<lambda>it. JObj (listed_row e it)) (select_unclaimed d)))"
  using assms by (simp add: get_items_def get_db_def query_def Let_def comp_def)

lemma select_unclaimed_mset:
  "mset (select_unclaimed d) = mset (filter (\<lambda>it. isClaimed it = 0) (Items d))"
  by (simp add: select_unclaimed_def mset_order_by_desc)

lemma select_unclaimed_sorted:
  "sorted_wrt (\<lambda>a b. sql_le (dateFound b) (dateFound a)) (select_unclaimed d)"
  unfolding select_unclaimed_def
  by (rule sorted_order_by_desc) (rule sql_le_total, rule sql_le_trans)

lemma cast_integer_past: "0 \<le> x \<Longrightarrow> cast_integer x = \<lfloor>x\<rfloor> \<and> 0 \<le> \<lfloor>x\<rfloor>"
  by (simp add: cast_integer_def)

lemma listed_row_days:
  "listed_row e it =
     [(''itemID'', JInt (item_id it)),
      (''itemName'', to_json (name it)),
      (''itemDescription'', to_json (description it)),
      (''itemCategory'', to_json (category it)),
      (''color'', to_json (color it)),
      (''dateFound'', to_json (dateFound it)),
      (''FoundAt'', to_json (foundAt it)),
      (''isClaimed'', JInt (isClaimed it)),
      (''DaysUnclaimed'',
         case julianday e (dateFound it) of
           None \<Rightarrow> JNull
         | Some j \<Rightarrow>
             JInt (if j \<le> julianday_now e GetItems_Select
                   then \<lfloor>julianday_now e GetItems_Select - j\<rfloor>
                   else \<lceil>julianday_now e GetItems_Select - j\<rceil>))]"
  by (simp add: listed_row_def days_unclaimed_def age_days_def cast_integer_def
      split: option.split)

text \<open>
  C6, as amended. \<^verbatim>\<open>get_items\<close> never changes the database. When its \<^verbatim>\<open>SELECT\<close>
  does not fail it answers 200 with one object per item whose \<open>isClaimed\<close> is 0, these
  items and no others, each once, in descending order of the stored \<open>dateFound\<close>. Each
  object carries the item's columns and \<open>DaysUnclaimed\<close>: the difference in days between
  now and the date found with its fractional part dropped (rounded toward zero), or null
  when the stored value is not a date. For a date found that is not in the future this is
  the floor of the difference, and it is not negative.
\<close>

theorem get_items_lists_unclaimed:
  "fst (get_items e d) = d
   \<and> (\<not> fault e GetItems_Select \<longrightarrow>
        (\<exists>rows.
           snd (get_items e d) = Response 200 (JArr (map (\<lambda>it. JObj (listed_row e it)) rows))
         \<and> mset rows = mset (filter (\<lambda>it. isClaimed it = 0) (Items d))
         \<and> sorted_wrt (\<lambda>a b. sql_le (dateFound b) (dateFound a)) rows))
   \<and> listed_row e it =
       [(''itemID'', JInt (item_id it)),
        (''itemName'', to_json (name it)),
        (''itemDescription'', to_json (description it)),
        (''itemCategory'', to_json (category it)),
        (''color'', to_json (color it)),
        (''dateFound'', to_json (dateFound it)),
        (''FoundAt'', to_json (foundAt it)),
        (''isClaimed'', JInt (isClaimed it)),
        (''DaysUnclaimed'',
           case julianday e (dateFound it) of
             None \<Rightarrow> JNull
           | Some j \<Rightarrow>
               JInt (if j \<le> julianday_now e GetItems_Select
                     then \<lfloor>julianday_now e GetItems_Select - j\<rfloor>
                     else \<lceil>julianday_now e GetItems_Select - j\<rceil>))]
   \<and> (j \<le> julianday_now e GetItems_Select \<longrightarrow> 0 \<le> \<lfloor>julianday_now e GetItems_Select - j\<rfloor>)"
proof (intro conjI impI)
  show "fst (get_items e d) = d"
    by (rule get_items_unchanged)
next
  assume "\<not> fault e GetItems_Select"
  then have "snd (get_items e d) =
      Response 200 (JArr (map (\<lambda>it. JObj (listed_row e it)) (select_unclaimed d)))"
    by (rule get_items_ok)
  then show "\<exists>rows.
      snd (get_items e d) = Response 200 (JArr (map (\<lambda>it. JObj (listed_row e it)) rows))
    \<and> mset rows = mset (filter (\<lambda>it. isClaimed it = 0) (Items d))
    \<and> sorted_wrt (\<lambda>a b. sql_le (dateFound b) (dateFound a)) rows"
    using select_unclaimed_mset select_unclaimed_sorted by blast
next
  show "listed_row e it =
       [(''itemID'', JInt (item_id it)),
        (''itemName'', to_json (name it)),
        (''itemDescription'', to_json (description it)),
        (''itemCategory'', to_json (category it)),
        (''color'', to_json (color it)),
        (''dateFound'', to_json (dateFound it)),
        (''FoundAt'', to_json (foundAt it)),
        (''isClaimed'', JInt (isClaimed it)),
        (''DaysUnclaimed'',
           case julianday e (dateFound it) of
             None \<Rightarrow> JNull
           | Some j \<Rightarrow>
               JInt (if j \<le> julianday_now e GetItems_Select
                     then \<lfloor>julianday_now e GetItems_Select - j\<rfloor>
                     else \<lceil>julianday_now e GetItems_Select - j\<rceil>))]"
    by (rule listed_row_days)
next
  assume "j \<le> julianday_now e GetItems_Select"
  then show "0 \<le> \<lfloor>julianday_now e GetItems_Select - j\<rfloor>"
    by simp
qed

text \<open>The roundings that occur in the scenario.\<close>

lemma floor_39_4: "\<lfloor>39 / 4 :: rat\<rfloor> = 9"
  by (rule floor_unique) simp_all

lemma ceiling_minus_quarter: "\<lceil>- (1 / 4) :: rat\<rceil> = 0"
  by (rule ceiling_unique) simp_all

lemma floor_minus_quarter: "\<lfloor>- (1 / 4) :: rat\<rfloor> = - 1"
  by (rule floor_unique) simp_all

text \<open>The definitions of \<^verbatim>\<open>get_items\<close>, for evaluation.\<close>

lemmas get_items_eval =
  get_items_def get_db_def query_def Let_def select_unclaimed_def order_by_desc_def
  listed_row_def days_unclaimed_def age_days_def cast_integer_def

text \<open>
  C6 as stated fails: the phone was registered with a date found six hours ahead of now
  (a quarter of a day); the floor of the difference is \<open>-1\<close>, the server reports 0.
\<close>

theorem get_items_floor_counterexample:
  "get_items scenario_env scenario_db =
     (scenario_db,
      Response 200
        (JArr
           [JObj [(''itemID'', JInt 3), (''itemName'', JStr ''Phone''),
                  (''itemDescription'', JStr ''Cracked screen''),
                  (''itemCategory'', JStr ''Electronics''), (''color'', JStr ''Blue''),
                  (''dateFound'', JStr ''2024-01-11''), (''FoundAt'', JStr ''Gym''),
                  (''isClaimed'', JInt 0), (''DaysUnclaimed'', JInt 0)],
            JObj [(''itemID'', JInt 1), (''itemName'', JStr ''Umbrella''),
                  (''itemDescription'', JStr ''Black, folding''),
                  (''itemCategory'', JStr ''Accessories''), (''color'', JStr ''Black''),
                  (''dateFound'', JStr ''2024-01-01''), (''FoundAt'', JStr ''Library''),
                  (''isClaimed'', JInt 0), (''DaysUnclaimed'', JInt 9)]]))
   \<and> julianday scenario_env (dateFound phone) = Some (4920641 / 2)
   \<and> \<lfloor>julianday_now scenario_env GetItems_Select - 4920641 / 2\<rfloor> = - 1"
  by (simp add: get_items_eval scenario_defs floor_39_4 ceiling_minus_quarter
      floor_minus_quarter)

text \<open>In the scenario, the umbrella and the phone are listed; the umbrella for 9 days.\<close>

theorem get_items_lists_unclaimed_witness:
  "fst (get_items scenario_env scenario_db) = scenario_db
   \<and> (\<exists>rows.
         snd (get_items scenario_env scenario_db) =
           Response 200 (JArr (map (\<lambda>it. JObj (listed_row scenario_env it)) rows))
       \<and> mset rows = {#umbrella, phone#}
       \<and> sorted_wrt (\<lambda>a b. sql_le (dateFound b) (dateFound a)) rows)
   \<and> map_of (listed_row scenario_env umbrella) ''DaysUnclaimed'' = Some (JInt 9)"
proof -
  have ok: "\<not> fault scenario_env GetItems_Select"
    by (simp add: scenario_env_def)
  have unclaimed: "filter (\<lambda>it. isClaimed it = 0) (Items scenario_db) = [umbrella, phone]"
    by (simp add: scenario_db_def umbrella_def wallet_def phone_def)
  have jd: "julianday scenario_env (dateFound umbrella) = Some (4920621 / 2)"
    by (simp add: scenario_env_def scenario_julianday_def umbrella_def)
  have now: "julianday_now scenario_env GetItems_Select = 9841281 / 4"
    by (simp add: scenario_env_def)
  from get_items_lists_unclaimed [of scenario_env scenario_db umbrella "4920621 / 2"] ok
  have "fst (get_items scenario_env scenario_db) = scenario_db"
    and "\<exists>rows.
         snd (get_items scenario_env scenario_db) =
           Response 200 (JArr (map (\<lambda>it. JObj (listed_row scenario_env it)) rows))
       \<and> mset rows = mset (filter (\<lambda>it. isClaimed it = 0) (Items scenario_db))
       \<and> sorted_wrt (\<lambda>a b. sql_le (dateFound b) (dateFound a)) rows"
    and "map_of (listed_row scenario_env umbrella) ''DaysUnclaimed'' =
       Some (case julianday scenario_env (dateFound umbrella) of
             None \<Rightarrow> JNull
           | Some j \<Rightarrow>
               JInt (if j \<le> julianday_now scenario_env GetItems_Select
                     then \<lfloor>julianday_now scenario_env GetItems_Select - j\<rfloor>
                     else \<lceil>julianday_now scenario_env GetItems_Select - j\<rceil>))"
    by simp_all
  then show ?thesis
    unfolding unclaimed jd now by (simp add: floor_39_4)
qed

section \<open>Properties of \<^verbatim>\<open>get_metrics\<close>\<close>

text \<open>The handler is a pure read; \<^verbatim>\<open>AVG\<close> runs over the ages that are not NULL.\<close>

lemma get_metrics_unchanged: "fst (get_metrics e d) = d"
  by (simp add: get_metrics_def get_db_def query_def Let_def)











section \<open>The claimed flag over sequences of requests\<close>

text \<open>What each handler can do to the database.\<close>

lemma add_item_cases:
  "fst (add_item e data d) = d \<or> (\<exists>ps. fst (add_item e data d) = insert_item e ps d)"
proof (cases "has_all required data")
  case (Inl x)
  then show ?thesis by (simp add: add_item_def add_item_try_def)
next
  case (Inr b)
  show ?thesis
  proof (cases b)
    case False
    with Inr show ?thesis by (simp add: add_item_def add_item_try_def)
  next
    case True
    show ?thesis
    proof (cases "item_params data")
      case (Inl x)
      with Inr True show ?thesis
        by (simp add: add_item_def add_item_try_def get_db_def)
    next
      case ps: (Inr ps)
      with Inr True
      have "fst (add_item e data d) = d \<or> fst (add_item e data d) = insert_item e ps d"
        by (simp add: add_item_def add_item_try_def get_db_def execute_def commit_def
            query_def Let_def split: option.split)
      then show ?thesis by blast
    qed
  qed
qed

lemma get_claims_unchanged: "fst (get_claims e d) = d"
  by (simp add: get_claims_def get_db_def query_def Let_def)

lemma get_employees_unchanged: "fst (get_employees e d) = d"
  by (simp add: get_employees_def get_db_def query_def Let_def)

lemma insert_item_Items:
  "\<exists>it. Items (insert_item e ps d) = Items d @ [it] \<and> isClaimed it = 0"
  by (cases ps) (simp add: insert_item_def)

text \<open>One request: existing rows keep their place and identifier; the flag stays or becomes 1.\<close>

lemma handle_keeps_claimed:
  assumes "k < length (Items d)"
  shows "k < length (Items (fst (handle e r d)))
     \<and> item_id (Items (fst (handle e r d)) ! k) = item_id (Items d ! k)
     \<and> (isClaimed (Items (fst (handle e r d)) ! k) = isClaimed (Items d ! k)
        \<or> isClaimed (Items (fst (handle e r d)) ! k) = 1)"
proof (cases r)
  case GET_items
  then show ?thesis using assms by (simp add: get_items_unchanged)
next
  case (POST_items data)
  from add_item_cases [of e data d] show ?thesis
  proof
    assume "fst (add_item e data d) = d"
    with POST_items assms show ?thesis by simp
  next
    assume "\<exists>ps. fst (add_item e data d) = insert_item e ps d"
    then obtain ps where "fst (add_item e data d) = insert_item e ps d" ..
    moreover obtain it where "Items (insert_item e ps d) = Items d @ [it]"
      using insert_item_Items by blast
    ultimately have "Items (fst (handle e r d)) = Items d @ [it]"
      using POST_items by simp
    with assms show ?thesis by (simp add: nth_append)
  qed
next
  case GET_claims
  then show ?thesis using assms by (simp add: get_claims_unchanged)
next
  case (POST_approve cid)
  from approve_claim_cases [of e cid d]
  have "fst (approve_claim e cid d) = d
     \<or> (\<exists>i. fst (approve_claim e cid d) = insert_status e i (update_item e i (update_claim e cid d)))"
    by auto
  then show ?thesis
  proof
    assume "fst (approve_claim e cid d) = d"
    with POST_approve assms show ?thesis by simp
  next
    assume "\<exists>i. fst (approve_claim e cid d) =
      insert_status e i (update_item e i (update_claim e cid d))"
    then obtain i where "fst (approve_claim e cid d) =
      insert_status e i (update_item e i (update_claim e cid d))" ..
    then have "Items (fst (handle e r d)) =
      map (\<lambda>it. if item_id it = i
                 then it\<lparr>isClaimed := 1, dateUpdated := datetime_now e Approve_UpdateItem\<rparr>
                 else it)
        (Items d)"
      using POST_approve by (simp add: approved_Items)
    with assms show ?thesis by simp
  qed
next
  case GET_metrics
  then show ?thesis using assms by (simp add: get_metrics_unchanged)
next
  case GET_employees
  then show ?thesis using assms by (simp add: get_employees_unchanged)
qed

text \<open>One request: a row that was not there before is unclaimed.\<close>

lemma handle_new_unclaimed:
  assumes "length (Items d) \<le> k" and "k < length (Items (fst (handle e r d)))"
  shows "isClaimed (Items (fst (handle e r d)) ! k) = 0"
proof (cases r)
  case GET_items
  then show ?thesis using assms by (simp add: get_items_unchanged)
next
  case (POST_items data)
  from add_item_cases [of e data d] show ?thesis
  proof
    assume "fst (add_item e data d) = d"
    with POST_items assms show ?thesis by simp
  next
    assume "\<exists>ps. fst (add_item e data d) = insert_item e ps d"
    then obtain ps where "fst (add_item e data d) = insert_item e ps d" ..
    moreover obtain it where "Items (insert_item e ps d) = Items d @ [it]" and "isClaimed it = 0"
      using insert_item_Items by blast
    ultimately have "Items (fst (handle e r d)) = Items d @ [it]" and "isClaimed it = 0"
      using POST_items by simp_all
    with assms show ?thesis by (simp add: nth_append)
  qed
next
  case GET_claims
  then show ?thesis using assms by (simp add: get_claims_unchanged)
next
  case (POST_approve cid)
  have "length (Items (fst (approve_claim e cid d))) = length (Items d)"
    using approve_claim_cases [of e cid d] by (auto simp: approved_Items)
  with POST_approve assms show ?thesis by simp
next
  case GET_metrics
  then show ?thesis using assms by (simp add: get_metrics_unchanged)
next
  case GET_employees
  then show ?thesis using assms by (simp add: get_employees_unchanged)
qed

text \<open>A successful approval: every row of the item it names is claimed afterwards.\<close>

lemma approve_sets_claimed:
  assumes "snd (approve_claim e cid d) =
      Response 200
        (JObj [(''success'', JBool True), (''claimID'', JStr cid), (''itemID'', JInt i)])"
    and "k < length (Items d)" and "item_id (Items d ! k) = i"
  shows "isClaimed (Items (fst (approve_claim e cid d)) ! k) = 1"
proof -
  from approve_claim_cases [of e cid d] assms(1)
  have "fst (approve_claim e cid d) =
      insert_status e i (update_item e i (update_claim e cid d))"
    by auto
  then have "Items (fst (approve_claim e cid d)) =
      map (\<lambda>it. if item_id it = i
                 then it\<lparr>isClaimed := 1, dateUpdated := datetime_now e Approve_UpdateItem\<rparr>
                 else it)
        (Items d)"
    by (simp only: approved_Items)
  with assms(2,3) show ?thesis by simp
qed

text \<open>
  C8. Over every sequence of requests to the six operations, whatever fails on the way,
  every row of \<open>Items\<close> stays in its place with its identifier, and its \<open>isClaimed\<close>
  either has the value it had or is 1: a flag that is 1 is never set back to 0. A row that
  a request adds (item registration) has \<open>isClaimed = 0\<close>. A claim approval that answers
  200 for item \<open>i\<close> leaves \<open>isClaimed = 1\<close> on every row of that item.
\<close>

theorem claimed_flag_never_reset:
  "(k < length (Items d) \<longrightarrow>
       k < length (Items (run rs d))
     \<and> item_id (Items (run rs d) ! k) = item_id (Items d ! k)
     \<and> (isClaimed (Items (run rs d) ! k) = isClaimed (Items d ! k)
        \<or> isClaimed (Items (run rs d) ! k) = 1))
   \<and> (length (Items d) \<le> k \<and> k < length (Items (fst (handle e r d))) \<longrightarrow>
       isClaimed (Items (fst (handle e r d)) ! k) = 0)
   \<and> (snd (handle e (POST_approve cid) d) =
         Response 200
           (JObj [(''success'', JBool True), (''claimID'', JStr cid), (''itemID'', JInt i)])
       \<and> k < length (Items d) \<and> item_id (Items d ! k) = i \<longrightarrow>
       isClaimed (Items (fst (handle e (POST_approve cid) d)) ! k) = 1)"
proof (intro conjI impI)
  assume "length (Items d) \<le> k \<and> k < length (Items (fst (handle e r d)))"
  then show "isClaimed (Items (fst (handle e r d)) ! k) = 0"
    using handle_new_unclaimed by blast
next
  assume "snd (handle e (POST_approve cid) d) =
         Response 200
           (JObj [(''success'', JBool True), (''claimID'', JStr cid), (''itemID'', JInt i)])
       \<and> k < length (Items d) \<and> item_id (Items d ! k) = i"
  then have "snd (approve_claim e cid d) =
         Response 200
           (JObj [(''success'', JBool True), (''claimID'', JStr cid), (''itemID'', JInt i)])"
    and "k < length (Items d)" and "item_id (Items d ! k) = i"
    by simp_all
  then have "isClaimed (Items (fst (approve_claim e cid d)) ! k) = 1"
    by (rule approve_sets_claimed)
  then show "isClaimed (Items (fst (handle e (POST_approve cid) d)) ! k) = 1"
    by simp
next
  assume "k < length (Items d)"
  then have "k < length (Items (run rs d))
     \<and> item_id (Items (run rs d) ! k) = item_id (Items d ! k)
     \<and> (isClaimed (Items (run rs d) ! k) = isClaimed (Items d ! k)
        \<or> isClaimed (Items (run rs d) ! k) = 1)"
  proof (induction rs arbitrary: d)
    case Nil
    then show ?case by simp
  next
    case (Cons a rs)
    obtain e r where a: "a = (e, r)"
      by (cases a)
    let ?d = "fst (handle e r d)"
    have step: "k < length (Items ?d)
       \<and> item_id (Items ?d ! k) = item_id (Items d ! k)
       \<and> (isClaimed (Items ?d ! k) = isClaimed (Items d ! k) \<or> isClaimed (Items ?d ! k) = 1)"
      using Cons.prems by (rule handle_keeps_claimed)
    then have "k < length (Items ?d)" by simp
    then have rest: "k < length (Items (run rs ?d))
       \<and> item_id (Items (run rs ?d) ! k) = item_id (Items ?d ! k)
       \<and> (isClaimed (Items (run rs ?d) ! k) = isClaimed (Items ?d ! k)
          \<or> isClaimed (Items (run rs ?d) ! k) = 1)"
      by (rule Cons.IH)
    have "run (a # rs) d = run rs ?d"
      by (simp add: a)
    with step rest show ?case by auto
  qed
  then show "k < length (Items (run rs d))"
    and "item_id (Items (run rs d) ! k) = item_id (Items d ! k)"
    and "isClaimed (Items (run rs d) ! k) = isClaimed (Items d ! k)
        \<or> isClaimed (Items (run rs d) ! k) = 1"
    by simp_all
qed

text \<open>
  In the scenario the umbrella (row 0) is unclaimed; approving claim 1 sets its flag, and
  the flag is still set after a registration and a read. The wallet (row 1) is claimed
  and stays so. The registered gloves become row 3, unclaimed.
\<close>

theorem claimed_flag_never_reset_witness:
  "isClaimed (Items scenario_db ! 0) = 0
   \<and> isClaimed (Items (fst (handle scenario_env (POST_approve ''1'') scenario_db)) ! 0) = 1
   \<and> isClaimed
        (Items (run [(scenario_env, POST_approve ''1''), (scenario_env, POST_items gloves_request),
                     (scenario_env, GET_metrics)] scenario_db) ! 0) = 1
   \<and> isClaimed (Items scenario_db ! 1) = 1
   \<and> isClaimed
        (Items (run [(scenario_env, POST_approve ''1''), (scenario_env, POST_items gloves_request),
                     (scenario_env, GET_metrics)] scenario_db) ! 1) = 1
   \<and> length (Items scenario_db) = 3
   \<and> length (Items (fst (handle scenario_env (POST_items gloves_request) scenario_db))) = 4
   \<and> isClaimed (Items (fst (handle scenario_env (POST_items gloves_request) scenario_db)) ! 3) = 0"
proof -
  let ?approve = "POST_approve ''1''"
  let ?rest = "[(scenario_env, POST_items gloves_request), (scenario_env, GET_metrics)]"
  define d1 where "d1 = fst (handle scenario_env ?approve scenario_db)"
  have len: "length (Items scenario_db) = 3"
    and umbrella0: "isClaimed (Items scenario_db ! 0) = 0" "item_id (Items scenario_db ! 0) = 1"
    and wallet1: "isClaimed (Items scenario_db ! 1) = 1"
    by (simp_all add: scenario_db_def umbrella_def wallet_def)
  have sel: "select_pending scenario_env ''1'' scenario_db = Some 1"
    by (simp add: select_pending_def scenario_defs id_is_def)
  have answer: "snd (handle scenario_env ?approve scenario_db) =
      Response 200
        (JObj [(''success'', JBool True), (''claimID'', JStr ''1''), (''itemID'', JInt 1)])"
    using approve_claim_some_ok [OF sel] by (simp add: scenario_env_def approve_stmts_def)
  have set1: "isClaimed (Items d1 ! 0) = 1"
    unfolding d1_def
    using claimed_flag_never_reset [of 0 scenario_db "[]" scenario_env GET_items "''1''" 1]
      answer len umbrella0
    by simp
  have len1: "0 < length (Items d1)"
    unfolding d1_def
    using claimed_flag_never_reset
      [of 0 scenario_db "[(scenario_env, ?approve)]" scenario_env GET_items "''1''" 1] len
    by simp
  have split: "run ((scenario_env, ?approve) # ?rest) scenario_db = run ?rest d1"
    by (simp add: d1_def)
  have kept0: "isClaimed (Items (run ?rest d1) ! 0) = 1"
    using claimed_flag_never_reset [of 0 d1 ?rest scenario_env GET_items "''1''" 1] len1 set1
    by auto
  have kept1: "isClaimed (Items (run ((scenario_env, ?approve) # ?rest) scenario_db) ! 1) = 1"
    using claimed_flag_never_reset
      [of 1 scenario_db "(scenario_env, ?approve) # ?rest" scenario_env GET_items "''1''" 1]
      len wallet1
    by auto
  have registered: "fst (add_item scenario_env gloves_request scenario_db) =
      scenario_db\<lparr>Items := [umbrella, wallet, phone, gloves]\<rparr>"
    by (simp add: add_item_eval gloves_request_def scenario_defs)
  have len': "length (Items (fst (handle scenario_env (POST_items gloves_request) scenario_db))) = 4"
    by (simp add: registered)
  have created:
    "isClaimed (Items (fst (handle scenario_env (POST_items gloves_request) scenario_db)) ! 3) = 0"
    using claimed_flag_never_reset
      [of 3 scenario_db "[]" scenario_env "POST_items gloves_request" "''1''" 1] len len'
    by simp
  show ?thesis
    using umbrella0(1) set1 [unfolded d1_def] kept0 [folded split] wallet1 kept1 len len' created
    by (intro conjI)
qed

end
